theory Spec2Isabelle
  imports Main "HOL-Library.Word"
begin

section \<open>C strings and decimal output\<close>

text \<open>
  Go strings, \<open>std::string\<close> values and the UTF-8 contents of script strings are byte
  sequences: \<^typ>\<open>string\<close>.  A \<open>char*\<close> argument is modelled by the bytes stored at it,
  without the terminating NUL that closes the storage; the callers in this repository
  always pass live, terminated storage (\<open>C.CString\<close> with a deferred \<open>C.free\<close>, or
  \<open>c_str()\<close> of a live string).  Whoever reads such storage as a C string sees the bytes
  before the first NUL: \<open>c_string\<close>.  \<open>append_cstr\<close> is
  \<open>std::string::append(const char*)\<close>.
\<close>

definition NUL :: char where
  "NUL = CHR 0x00"

definition c_string :: "string \<Rightarrow> string" where
  "c_string bytes = takeWhile (\<lambda>c. c \<noteq> NUL) bytes"

definition append_cstr :: "string \<Rightarrow> string \<Rightarrow> string" where
  "append_cstr out s = out @ c_string s"

text \<open>
  Decimal output, as \<open>snprintf\<close> with \<open>%i\<close> and \<open>strconv.Itoa\<close> produce it.  The C
  \<open>int\<close> is 32 bits wide, the Go \<open>int\<close> 64 bits; \<open>snprintf_i\<close> writes at most \<open>size - 1\<close>
  characters into its buffer.
\<close>

definition digit_char :: "nat \<Rightarrow> char" where
  "digit_char d = ''0123456789'' ! d"

fun digits :: "nat \<Rightarrow> string" where
  "digits n = (if n < 10 then [digit_char n] else digits (n div 10) @ [digit_char (n mod 10)])"

declare digits.simps [simp del]

definition show_int :: "int \<Rightarrow> string" where
  "show_int i = (if i < 0 then CHR ''-'' # digits (nat (- i)) else digits (nat i))"

definition snprintf_i :: "nat \<Rightarrow> 32 word \<Rightarrow> string" where
  "snprintf_i size' v = take (size' - 1) (show_int (sint v))"

section \<open>binding.cc: the exception translator\<close>

text \<open>
  A \<open>String::Utf8Value\<close> is \<^term>\<open>None\<close> when the conversion yields no buffer (an empty
  handle, a failed conversion) and the bytes of the string otherwise.  \<open>try_catch\<close> holds
  what \<open>ExceptionString\<close> reads from a \<open>TryCatch\<close> that has caught a fault: the exception
  as UTF-8, the message with its position metadata when the engine provides one, and the
  stack trace.
\<close>

definition ToCString :: "string option \<Rightarrow> string" where
  "ToCString v = (case v of Some s \<Rightarrow> s | None \<Rightarrow> ''<string conversion failed>'')"

record js_message =
  ResourceName :: "string option"
  GetLineNumber :: "32 word"
  GetSourceLine :: "string option"
  GetStartColumn :: "32 word"
  GetEndColumn :: "32 word"

record try_catch =
  Exception :: "string option"
  Message :: "js_message option"
  StackTrace :: "string option"

text \<open>
  The two \<open>for\<close> loops of \<open>ExceptionString\<close>: \<open>for (int i = ...; i < bound; i++)
  out.append(s)\<close>.
\<close>

function append_loop :: "int \<Rightarrow> int \<Rightarrow> string \<Rightarrow> string \<Rightarrow> string" where
  "append_loop i bound s out =
     (if i < bound then append_loop (i + 1) bound s (append_cstr out s) else out)"
  by pat_completeness auto
termination
  by (relation "measure (\<lambda>(i, bound, s, out). nat (bound - i))") auto

declare append_loop.simps [simp del]

definition Utf8Value_length :: "string option \<Rightarrow> nat" where
  "Utf8Value_length v = (case v of Some s \<Rightarrow> length s | None \<Rightarrow> 0)"

definition ExceptionString :: "try_catch \<Rightarrow> string" where
  "ExceptionString try_catch =
     (let scratchSize = 20;
          exception_string = ToCString (Exception try_catch)
      in case Message try_catch of
           None \<Rightarrow>
             (let out = append_cstr [] exception_string;
                  out = append_cstr out ''\<newline>''
              in out)
         | Some message \<Rightarrow>
             (let filename_string = ToCString (ResourceName message);
                  linenum = GetLineNumber message;
                  scratch = snprintf_i scratchSize linenum;
                  out = append_cstr [] filename_string;
                  out = append_cstr out '':'';
                  out = append_cstr out scratch;
                  out = append_cstr out ''\<newline>'';
                  sourceline_string = ToCString (GetSourceLine message);
                  out = append_cstr out sourceline_string;
                  out = append_cstr out ''\<newline>'';
                  start = sint (GetStartColumn message);
                  out = append_loop 0 start '' '' out;
                  end' = sint (GetEndColumn message);
                  out = append_loop start end' ''^'' out;
                  out = append_cstr out ''\<newline>'';
                  stack_trace = StackTrace try_catch
              in if Utf8Value_length stack_trace > 0
                 then append_cstr (append_cstr out (ToCString stack_trace)) ''\<newline>''
                 else append_cstr (append_cstr out exception_string) ''\<newline>''))"


section \<open>Script values and script behaviour\<close>

text \<open>
  The scripting engine is an external collaborator.  A script (a compiled unit, or a
  script function called with one string argument) is known to this layer only through
  the calls it makes to the five reserved bindings and through the way it completes:
  with a value, or with an uncaught fault.  Each node carries the first argument the
  binding receives (\<open>$print\<close>: the UTF-8 conversion of every argument); the reply of
  \<open>$sendSync\<close> decides how the script goes on.  A leaf carries the engine's global
  namespace, of type \<^typ>\<open>'c\<close>, as the run leaves it.  A script string is held as its UTF-8
  bytes.  A script that runs forever has no such description: a call that runs it does
  not return.
\<close>

datatype 'c jsval =
    JSUndefined
  | JSNull
  | JSBoolean bool
  | JSNumber int
  | JSString string
  | JSObject
  | JSFunction "string \<Rightarrow> 'c \<Rightarrow> 'c script"
and 'c script =
    Return 'c "'c jsval"
  | Throw 'c try_catch
  | CallPrint "string option list" "'c script"
  | CallRecv "'c jsval" "'c script"
  | CallRecvSync "'c jsval" "'c script"
  | CallSend "'c jsval" "'c script"
  | CallSendSync "'c jsval" "string \<Rightarrow> 'c script"

type_synonym 'c jsfun = "string \<Rightarrow> 'c \<Rightarrow> 'c script"

text \<open>
  What this layer asks of the engine: \<open>String::NewFromUtf8\<close> (the contents, read back as
  UTF-8, of the script string made from a C string; the identity on valid UTF-8),
  \<open>Script::Compile\<close> (a caught fault, or a unit that runs in the context it is given) and
  the fresh context of \<open>Context::New\<close>.
\<close>

record v8_ScriptOrigin =
  name :: string
  line_offset :: "32 word"
  column_offset :: "32 word"
  is_shared_cross_origin :: bool
  script_id :: "32 word"
  is_embedder_debug_script :: bool
  source_map_url :: string
  is_opaque :: bool

record 'c engine =
  String_NewFromUtf8 :: "string \<Rightarrow> string"
  Script_Compile :: "string \<Rightarrow> v8_ScriptOrigin \<Rightarrow> try_catch + ('c \<Rightarrow> 'c script)"
  Context_New :: 'c

definition NewFromUtf8 :: "'c engine \<Rightarrow> string \<Rightarrow> string" where
  "NewFromUtf8 eng data = String_NewFromUtf8 eng (c_string data)"

section \<open>The worker and the process\<close>

text \<open>
  \<open>worker_s\<close> is the struct of binding.cc; an empty \<open>Persistent\<close> handle is \<^term>\<open>None\<close>.
  \<open>process\<close> holds the package-level variables of worker.go, the state of the host
  program (of type \<^typ>\<open>'h\<close>, which the host's callbacks read and change) and what has been
  printed.  In \<open>callbacksMap\<close> a missing key is \<^term>\<open>None\<close>: the lookup yields a nil
  pointer.  A nil callback is \<^term>\<open>None\<close> as well.
\<close>

record 'c worker_s =
  id' :: "32 word"
  last_exception :: string
  recv :: "'c jsfun option"
  context' :: 'c
  recv_sync_handler :: "'c jsfun option"

record 'h callbacks =
  cb :: "(string \<Rightarrow> 'h \<Rightarrow> 'h) option"
  syncCB :: "(string \<Rightarrow> 'h \<Rightarrow> string \<times> 'h) option"

record 'h process =
  initV8Once :: bool
  scriptSequence :: "64 word"
  workerIdSequence :: "64 word"
  callbacksMap :: "64 word \<Rightarrow> 'h callbacks option"
  host :: 'h
  stdout :: string

text \<open>
  The ways a call can end without returning: a failed \<open>assert\<close>, a Go nil dereference, a
  member call through an empty handle, a read through a pointer whose storage is gone.
\<close>

datatype abort =
    AssertionFailed
  | NilPointerDereference
  | EmptyHandleDereference
  | DanglingPointerRead

text \<open>
  A \<open>char*\<close> that a function returns is read by the caller after the callee's locals are
  destroyed, so it records the storage it points into: a string literal, a local of the
  callee, a member of the worker, or \<open>malloc\<close>'ed memory.  Leaving the callee releases
  its locals; \<open>Dangling\<close> keeps, for the record, the bytes the storage held.
\<close>

datatype storage = Static | Automatic | Member | Malloc

datatype cptr = Ptr storage string | Dangling string

definition function_return :: "cptr \<Rightarrow> cptr" where
  "function_return p = (case p of Ptr Automatic bytes \<Rightarrow> Dangling bytes | _ \<Rightarrow> p)"

definition read_cptr :: "cptr \<Rightarrow> abort + string" where
  "read_cptr p =
     (case p of Ptr st bytes \<Rightarrow> Inr (c_string bytes) | Dangling bytes \<Rightarrow> Inl DanglingPointerRead)"

definition C_GoString :: "cptr \<Rightarrow> abort + string" where
  "C_GoString p = read_cptr p"

definition C_CString :: "string \<Rightarrow> string" where
  "C_CString s = s"

section \<open>worker.go: the callbacks a script reaches\<close>

text \<open>
  \<open>recvCb\<close> and \<open>recvSyncCb\<close>.  The registry entry is dereferenced as the lookup returns
  it.
\<close>

definition recvCb :: "string \<Rightarrow> 64 word \<Rightarrow> 'h process \<Rightarrow> abort + 'h process" where
  "recvCb msg_s workerId p =
     (let msg = c_string msg_s
      in case callbacksMap p workerId of
           None \<Rightarrow> Inl NilPointerDereference
         | Some entry \<Rightarrow>
             (case cb entry of
                None \<Rightarrow> Inl NilPointerDereference
              | Some fn \<Rightarrow> Inr (p\<lparr>host := fn msg (host p)\<rparr>)))"

definition recvSyncCb :: "string \<Rightarrow> 64 word \<Rightarrow> 'h process \<Rightarrow> abort + (cptr \<times> 'h process)" where
  "recvSyncCb msg_s workerId p =
     (let msg = c_string msg_s
      in case callbacksMap p workerId of
           None \<Rightarrow> Inl NilPointerDereference
         | Some entry \<Rightarrow>
             (case syncCB entry of
                None \<Rightarrow> Inl NilPointerDereference
              | Some fn \<Rightarrow>
                  (case fn msg (host p) of
                     (res, h) \<Rightarrow> Inr (Ptr Malloc (C_CString res), p\<lparr>host := h\<rparr>))))"

section \<open>binding.cc: the reserved bindings\<close>

text \<open>
  \<open>Print\<close>, \<open>Recv\<close>, \<open>RecvSync\<close>, \<open>Send\<close> and \<open>SendSync\<close> of binding.cc, installed as
  \<open>$print\<close>, \<open>$recv\<close>, \<open>$recvSync\<close>, \<open>$send\<close> and \<open>$sendSync\<close>; the last two carry a prime
  here, their names being those of the host's methods too.  binding.cc declares the Go
  callbacks with a C \<open>int\<close> for the identity of the worker, while they take a Go \<open>int\<close>:
  the 32 bits of \<open>w->id\<close> arrive as the low half of the 64-bit parameter, the high half
  being zero.  \<open>run_script\<close> runs a script against the worker and the process, and
  \<open>Call\<close> is \<open>Function::Call\<close> with one string argument.
\<close>

fun Print_args :: "bool \<Rightarrow> string option list \<Rightarrow> string" where
  "Print_args first [] = []"
| "Print_args first (str # args) =
     (if first then [] else '' '') @ c_string (ToCString str) @ Print_args False args"

definition Print :: "string option list \<Rightarrow> 'h process \<Rightarrow> 'h process" where
  "Print args p = p\<lparr>stdout := stdout p @ Print_args True args @ ''\<newline>''\<rparr>"

definition Recv :: "'c jsval \<Rightarrow> 'c worker_s \<Rightarrow> abort + 'c worker_s" where
  "Recv v w = (case v of JSFunction func \<Rightarrow> Inr (w\<lparr>recv := Some func\<rparr>) | _ \<Rightarrow> Inl AssertionFailed)"

definition RecvSync :: "'c jsval \<Rightarrow> 'c worker_s \<Rightarrow> abort + 'c worker_s" where
  "RecvSync v w =
     (case v of JSFunction func \<Rightarrow> Inr (w\<lparr>recv_sync_handler := Some func\<rparr>) | _ \<Rightarrow> Inl AssertionFailed)"

definition Send' :: "'c jsval \<Rightarrow> 'c worker_s \<Rightarrow> 'h process \<Rightarrow> abort + 'h process" where
  "Send' v w p =
     (case v of
        JSString str \<Rightarrow> (let msg = c_string (ToCString (Some str)) in recvCb msg (ucast (id' w)) p)
      | _ \<Rightarrow> Inl AssertionFailed)"

definition SendSync' ::
  "'c engine \<Rightarrow> 'c jsval \<Rightarrow> 'c worker_s \<Rightarrow> 'h process \<Rightarrow> abort + (string \<times> 'h process)" where
  "SendSync' eng v w p =
     (case v of
        JSString str \<Rightarrow>
          (let msg = c_string (ToCString (Some str))
           in case recvSyncCb msg (ucast (id' w)) p of
                Inl a \<Rightarrow> Inl a
              | Inr (returnMsg, p') \<Rightarrow>
                  (case returnMsg of
                     Ptr st bytes \<Rightarrow> Inr (NewFromUtf8 eng bytes, p')
                   | Dangling bytes \<Rightarrow> Inl DanglingPointerRead))
      | _ \<Rightarrow> Inl AssertionFailed)"

primrec run_script ::
  "'c engine \<Rightarrow> 'c script \<Rightarrow> 'c worker_s \<Rightarrow> 'h process
     \<Rightarrow> abort + ((try_catch + 'c jsval) \<times> 'c worker_s \<times> 'h process)" where
  "run_script eng (Return c v) w p = Inr (Inr v, w\<lparr>context' := c\<rparr>, p)"
| "run_script eng (Throw c caught) w p = Inr (Inl caught, w\<lparr>context' := c\<rparr>, p)"
| "run_script eng (CallPrint args k) w p = run_script eng k w (Print args p)"
| "run_script eng (CallRecv v k) w p =
     (case Recv v w of Inl a \<Rightarrow> Inl a | Inr w' \<Rightarrow> run_script eng k w' p)"
| "run_script eng (CallRecvSync v k) w p =
     (case RecvSync v w of Inl a \<Rightarrow> Inl a | Inr w' \<Rightarrow> run_script eng k w' p)"
| "run_script eng (CallSend v k) w p =
     (case Send' v w p of Inl a \<Rightarrow> Inl a | Inr p' \<Rightarrow> run_script eng k w p')"
| "run_script eng (CallSendSync v k) w p =
     (case SendSync' eng v w p of
        Inl a \<Rightarrow> Inl a
      | Inr (returnV, p') \<Rightarrow> run_script eng (k returnV) w p')"

definition Call ::
  "'c engine \<Rightarrow> 'c jsfun \<Rightarrow> string \<Rightarrow> 'c worker_s \<Rightarrow> 'h process
     \<Rightarrow> abort + ((try_catch + 'c jsval) \<times> 'c worker_s \<times> 'h process)" where
  "Call eng func arg w p = run_script eng (func arg (context' w)) w p"

section \<open>binding.cc: the functions the host calls\<close>

text \<open>
  In \<open>worker_load\<close> and \<open>worker_send\<close> a \<open>TryCatch\<close> is in scope: an empty result comes
  with the fault it has caught.  \<open>worker_send_sync\<close> has none: when the handler throws,
  the result handle is empty and \<open>response_value->IsString()\<close> goes through it.
\<close>

definition worker_last_exception :: "'c worker_s \<Rightarrow> cptr" where
  "worker_last_exception w = function_return (Ptr Member (last_exception w))"

definition worker_load ::
  "'c engine \<Rightarrow> 'c worker_s \<Rightarrow> string \<Rightarrow> string \<Rightarrow> 32 word \<Rightarrow> 32 word \<Rightarrow> bool
     \<Rightarrow> 32 word \<Rightarrow> bool \<Rightarrow> string \<Rightarrow> bool \<Rightarrow> 'h process
     \<Rightarrow> abort + (32 word \<times> 'c worker_s \<times> 'h process)" where
  "worker_load eng w source_s name_s line_offset_s column_offset_s is_shared_cross_origin_s
       script_id_s is_embedder_debug_script_s source_map_url_s is_opaque_s p =
     (let origin = \<lparr>name = NewFromUtf8 eng name_s,
                     line_offset = line_offset_s,
                     column_offset = column_offset_s,
                     is_shared_cross_origin = is_shared_cross_origin_s,
                     script_id = script_id_s,
                     is_embedder_debug_script = is_embedder_debug_script_s,
                     source_map_url = NewFromUtf8 eng source_map_url_s,
                     is_opaque = is_opaque_s\<rparr>;
          source = NewFromUtf8 eng source_s
      in case Script_Compile eng source origin of
           Inl try_catch \<Rightarrow> Inr (1, w\<lparr>last_exception := ExceptionString try_catch\<rparr>, p)
         | Inr script \<Rightarrow>
             (case run_script eng (script (context' w)) w p of
                Inl a \<Rightarrow> Inl a
              | Inr (Inl try_catch, w', p') \<Rightarrow>
                  Inr (2, w'\<lparr>last_exception := ExceptionString try_catch\<rparr>, p')
              | Inr (Inr result, w', p') \<Rightarrow> Inr (0, w', p')))"

definition worker_send ::
  "'c engine \<Rightarrow> 'c worker_s \<Rightarrow> string \<Rightarrow> 'h process
     \<Rightarrow> abort + (32 word \<times> 'c worker_s \<times> 'h process)" where
  "worker_send eng w msg p =
     (case recv w of
        None \<Rightarrow> Inr (1, w\<lparr>last_exception := c_string ''$recv not called''\<rparr>, p)
      | Some recv' \<Rightarrow>
          (case Call eng recv' (NewFromUtf8 eng msg) w p of
             Inl a \<Rightarrow> Inl a
           | Inr (Inl try_catch, w', p') \<Rightarrow>
               Inr (2, w'\<lparr>last_exception := ExceptionString try_catch\<rparr>, p')
           | Inr (Inr result, w', p') \<Rightarrow> Inr (0, w', p')))"

definition worker_send_sync ::
  "'c engine \<Rightarrow> 'c worker_s \<Rightarrow> string \<Rightarrow> 'h process
     \<Rightarrow> abort + (cptr \<times> 'c worker_s \<times> 'h process)" where
  "worker_send_sync eng w msg p =
     (case recv_sync_handler w of
        None \<Rightarrow> Inr (function_return (Ptr Static ''err: $recvSync not called''), w, p)
      | Some recv_sync_handler' \<Rightarrow>
          (case Call eng recv_sync_handler' (NewFromUtf8 eng msg) w p of
             Inl a \<Rightarrow> Inl a
           | Inr (Inl try_catch, w', p') \<Rightarrow> Inl EmptyHandleDereference
           | Inr (Inr response_value, w', p') \<Rightarrow>
               (case response_value of
                  JSString response \<Rightarrow>
                    (let out = append_cstr [] response
                     in Inr (function_return (Ptr Automatic out), w', p'))
                | _ \<Rightarrow>
                    Inr (function_return (Ptr Static ''err: non-string return value''), w', p'))))"

definition worker_new :: "'c engine \<Rightarrow> 32 word \<Rightarrow> 'c worker_s" where
  "worker_new eng worker_id =
     \<lparr>id' = worker_id,
      last_exception = [],
      recv = None,
      context' = Context_New eng,
      recv_sync_handler = None\<rparr>"

text \<open>
  \<open>worker_dispose\<close> disposes of the isolate and deletes the struct: nothing of the
  worker is left to the caller.
\<close>

definition worker_dispose :: "'c worker_s \<Rightarrow> unit" where
  "worker_dispose w = ()"

section \<open>worker.go: the host-facing operations\<close>

text \<open>
  A \<open>Worker\<close> owns its \<open>worker_s\<close>.  \<open>New\<close> returns, with the worker and the process,
  the finalizer it sets on the worker: \<open>finalizer\<close> is the function literal of \<open>New\<close>,
  its first argument the \<open>id\<close> that the literal captures.  The finalizer disposes of the
  worker it is given and hands none back: Go runs it once nothing refers to the worker
  any more, so no call on that worker follows.  \<open>C.int(id)\<close> keeps the low 32 bits of
  the identity.  \<open>script_origin\<close> is the opening of
  \<open>LoadWithOptions\<close>: a nil origin is replaced by a new one, an empty name by the next
  generated name; \<open>LoadWithOptions\<close> returns the origin with the rest, since it writes
  the name into the caller's record.  An \<open>error\<close> is nil (\<^term>\<open>None\<close>) or made by
  \<open>errors.New\<close>.
\<close>

record ScriptOrigin =
  ScriptName :: string
  LineOffset :: "32 word"
  ColumnOffset :: "32 word"
  IsSharedCrossOrigin :: bool
  ScriptId :: "32 word"
  IsEmbedderDebugScript :: bool
  SourceMapURL :: string
  IsOpaque :: bool

record 'c Worker =
  cWorker :: "'c worker_s"

datatype error = errors_New string

definition new_ScriptOrigin :: ScriptOrigin where
  "new_ScriptOrigin =
     \<lparr>ScriptName = [], LineOffset = 0, ColumnOffset = 0, IsSharedCrossOrigin = False,
      ScriptId = 0, IsEmbedderDebugScript = False, SourceMapURL = [], IsOpaque = False\<rparr>"

definition strconv_Itoa :: "64 word \<Rightarrow> string" where
  "strconv_Itoa i = show_int (sint i)"

definition nextWorkerId :: "'h process \<Rightarrow> 64 word \<times> 'h process" where
  "nextWorkerId p =
     (let seq = workerIdSequence p
      in (seq, p\<lparr>workerIdSequence := workerIdSequence p + 1\<rparr>))"

definition nextScriptName :: "'h process \<Rightarrow> string \<times> 'h process" where
  "nextScriptName p =
     (let seq = scriptSequence p
      in (''VM'' @ strconv_Itoa seq, p\<lparr>scriptSequence := scriptSequence p + 1\<rparr>))"

definition finalizer :: "64 word \<Rightarrow> 'c Worker \<Rightarrow> 'h process \<Rightarrow> 'h process" where
  "finalizer ident final_worker p =
     (case worker_dispose (cWorker final_worker) of
        () \<Rightarrow> p\<lparr>callbacksMap := (callbacksMap p)(ident := None)\<rparr>)"

definition New ::
  "'c engine \<Rightarrow> (string \<Rightarrow> 'h \<Rightarrow> 'h) option \<Rightarrow> (string \<Rightarrow> 'h \<Rightarrow> string \<times> 'h) option
     \<Rightarrow> 'h process \<Rightarrow> 'c Worker \<times> ('c Worker \<Rightarrow> 'h process \<Rightarrow> 'h process) \<times> 'h process" where
  "New eng cb' syncCB' p =
     (case nextWorkerId p of
        (ident, p1) \<Rightarrow>
          (let cbWrapper = \<lparr>cb = cb', syncCB = syncCB'\<rparr>;
               p2 = p1\<lparr>callbacksMap := (callbacksMap p1)(ident \<mapsto> cbWrapper)\<rparr>;
               p3 = p2\<lparr>initV8Once := True\<rparr>;
               worker = \<lparr>cWorker = worker_new eng (ucast ident)\<rparr>
           in (worker, finalizer ident, p3)))"

definition script_origin ::
  "ScriptOrigin option \<Rightarrow> 'h process \<Rightarrow> ScriptOrigin \<times> 'h process" where
  "script_origin origin p =
     (let origin = (case origin of None \<Rightarrow> new_ScriptOrigin | Some given \<Rightarrow> given)
      in if ScriptName origin = []
         then (case nextScriptName p of
                 (generated, p') \<Rightarrow> (origin\<lparr>ScriptName := generated\<rparr>, p'))
         else (origin, p))"

definition LoadWithOptions ::
  "'c engine \<Rightarrow> 'c Worker \<Rightarrow> ScriptOrigin option \<Rightarrow> string \<Rightarrow> 'h process
     \<Rightarrow> abort + (error option \<times> ScriptOrigin \<times> 'c Worker \<times> 'h process)" where
  "LoadWithOptions eng w origin code p =
     (case script_origin origin p of
        (origin, p) \<Rightarrow>
          (case worker_load eng (cWorker w) (C_CString code) (C_CString (ScriptName origin))
                  (LineOffset origin) (ColumnOffset origin) (IsSharedCrossOrigin origin)
                  (ScriptId origin) (IsEmbedderDebugScript origin)
                  (C_CString (SourceMapURL origin)) (IsOpaque origin) p of
             Inl a \<Rightarrow> Inl a
           | Inr (r, cw, p') \<Rightarrow>
               if r \<noteq> 0
               then (case C_GoString (worker_last_exception cw) of
                       Inl a \<Rightarrow> Inl a
                     | Inr errStr \<Rightarrow> Inr (Some (errors_New errStr), origin, w\<lparr>cWorker := cw\<rparr>, p'))
               else Inr (None, origin, w\<lparr>cWorker := cw\<rparr>, p')))"

definition Load ::
  "'c engine \<Rightarrow> 'c Worker \<Rightarrow> string \<Rightarrow> string \<Rightarrow> 'h process
     \<Rightarrow> abort + (error option \<times> ScriptOrigin \<times> 'c Worker \<times> 'h process)" where
  "Load eng w scriptName code p =
     LoadWithOptions eng w (Some (new_ScriptOrigin\<lparr>ScriptName := scriptName\<rparr>)) code p"

definition Send ::
  "'c engine \<Rightarrow> 'c Worker \<Rightarrow> string \<Rightarrow> 'h process
     \<Rightarrow> abort + (error option \<times> 'c Worker \<times> 'h process)" where
  "Send eng w msg p =
     (case worker_send eng (cWorker w) (C_CString msg) p of
        Inl a \<Rightarrow> Inl a
      | Inr (r, cw, p') \<Rightarrow>
          if r \<noteq> 0
          then (case C_GoString (worker_last_exception cw) of
                  Inl a \<Rightarrow> Inl a
                | Inr errStr \<Rightarrow> Inr (Some (errors_New errStr), w\<lparr>cWorker := cw\<rparr>, p'))
          else Inr (None, w\<lparr>cWorker := cw\<rparr>, p'))"

definition SendSync ::
  "'c engine \<Rightarrow> 'c Worker \<Rightarrow> string \<Rightarrow> 'h process
     \<Rightarrow> abort + (string \<times> 'c Worker \<times> 'h process)" where
  "SendSync eng w msg p =
     (case worker_send_sync eng (cWorker w) (C_CString msg) p of
        Inl a \<Rightarrow> Inl a
      | Inr (svalue, cw, p') \<Rightarrow>
          (case C_GoString svalue of
             Inl a \<Rightarrow> Inl a
           | Inr s \<Rightarrow> Inr (s, w\<lparr>cWorker := cw\<rparr>, p')))"

section \<open>Sequences of calls\<close>

text \<open>
  Notions for stating properties of runs: the process as it starts; the engine's verdict
  on a source as \<open>worker_load\<close> submits it; whether the run of a script comes to a call
  of a reserved binding with an argument of the wrong kind (the calls before it having
  returned); sequences of host operations; sequences of creations, with the workers they
  make; scripts that make a list of handler registrations; sequences of loads without
  origin, with the names they run under.
\<close>

definition process_start :: "'h \<Rightarrow> 'h process" where
  "process_start h =
     \<lparr>initV8Once = False, scriptSequence = 0, workerIdSequence = 0,
      callbacksMap = Map.empty, host = h, stdout = []\<rparr>"

definition compiled :: "'c engine \<Rightarrow> ScriptOrigin \<Rightarrow> string \<Rightarrow> try_catch + ('c \<Rightarrow> 'c script)" where
  "compiled eng origin code =
     Script_Compile eng (NewFromUtf8 eng (C_CString code))
       \<lparr>name = NewFromUtf8 eng (C_CString (ScriptName origin)),
        line_offset = LineOffset origin,
        column_offset = ColumnOffset origin,
        is_shared_cross_origin = IsSharedCrossOrigin origin,
        script_id = ScriptId origin,
        is_embedder_debug_script = IsEmbedderDebugScript origin,
        source_map_url = NewFromUtf8 eng (C_CString (SourceMapURL origin)),
        is_opaque = IsOpaque origin\<rparr>"

definition without_diagnostic :: "'c Worker \<Rightarrow> 'c Worker" where
  "without_diagnostic w = w\<lparr>cWorker := (cWorker w)\<lparr>last_exception := []\<rparr>\<rparr>"

primrec hands_wrong_argument ::
  "'c engine \<Rightarrow> 'c script \<Rightarrow> 'c worker_s \<Rightarrow> 'h process \<Rightarrow> bool" where
  "hands_wrong_argument eng (Return c v) w p = False"
| "hands_wrong_argument eng (Throw c caught) w p = False"
| "hands_wrong_argument eng (CallPrint args k) w p = hands_wrong_argument eng k w (Print args p)"
| "hands_wrong_argument eng (CallRecv v k) w p =
     (case v of
        JSFunction func \<Rightarrow>
          (case Recv v w of Inl a \<Rightarrow> False | Inr w' \<Rightarrow> hands_wrong_argument eng k w' p)
      | _ \<Rightarrow> True)"
| "hands_wrong_argument eng (CallRecvSync v k) w p =
     (case v of
        JSFunction func \<Rightarrow>
          (case RecvSync v w of Inl a \<Rightarrow> False | Inr w' \<Rightarrow> hands_wrong_argument eng k w' p)
      | _ \<Rightarrow> True)"
| "hands_wrong_argument eng (CallSend v k) w p =
     (case v of
        JSString str \<Rightarrow>
          (case Send' v w p of Inl a \<Rightarrow> False | Inr p' \<Rightarrow> hands_wrong_argument eng k w p')
      | _ \<Rightarrow> True)"
| "hands_wrong_argument eng (CallSendSync v k) w p =
     (case v of
        JSString str \<Rightarrow>
          (case SendSync' eng v w p of
             Inl a \<Rightarrow> False
           | Inr (returnV, p') \<Rightarrow> hands_wrong_argument eng (k returnV) w p')
      | _ \<Rightarrow> True)"

datatype operation =
    DoLoadWithOptions "ScriptOrigin option" string
  | DoSend string
  | DoSendSync string

datatype outcome =
    Loaded "error option" ScriptOrigin
  | Sent "error option"
  | Answered string

fun operate ::
  "'c engine \<Rightarrow> operation \<Rightarrow> 'c Worker \<Rightarrow> 'h process
     \<Rightarrow> abort + (outcome \<times> 'c Worker \<times> 'h process)" where
  "operate eng (DoLoadWithOptions origin code) w p =
     (case LoadWithOptions eng w origin code p of
        Inl a \<Rightarrow> Inl a
      | Inr (err, origin', w', p') \<Rightarrow> Inr (Loaded err origin', w', p'))"
| "operate eng (DoSend msg) w p =
     (case Send eng w msg p of
        Inl a \<Rightarrow> Inl a
      | Inr (err, w', p') \<Rightarrow> Inr (Sent err, w', p'))"
| "operate eng (DoSendSync msg) w p =
     (case SendSync eng w msg p of
        Inl a \<Rightarrow> Inl a
      | Inr (reply, w', p') \<Rightarrow> Inr (Answered reply, w', p'))"

fun operate_all ::
  "'c engine \<Rightarrow> operation list \<Rightarrow> 'c Worker \<Rightarrow> 'h process
     \<Rightarrow> abort + (outcome list \<times> 'c Worker \<times> 'h process)" where
  "operate_all eng [] w p = Inr ([], w, p)"
| "operate_all eng (x # xs) w p =
     (case operate eng x w p of
        Inl a \<Rightarrow> Inl a
      | Inr (out, w', p') \<Rightarrow>
          (case operate_all eng xs w' p' of
             Inl a \<Rightarrow> Inl a
           | Inr (outs, w'', p'') \<Rightarrow> Inr (out # outs, w'', p'')))"

text \<open>
  A creation is the two callbacks given to \<open>New\<close> and whether the worker is dropped and
  collected, its finalizer run, before the next creation.
\<close>

record 'h creation =
  callback :: "(string \<Rightarrow> 'h \<Rightarrow> 'h) option"
  sync_callback :: "(string \<Rightarrow> 'h \<Rightarrow> string \<times> 'h) option"
  collected :: bool

fun create_all ::
  "'c engine \<Rightarrow> 'h creation list \<Rightarrow> 'h process \<Rightarrow> 'c Worker list \<times> 'h process" where
  "create_all eng [] p = ([], p)"
| "create_all eng (c # rest) p =
     (case New eng (callback c) (sync_callback c) p of
        (w, final, p') \<Rightarrow>
          (case create_all eng rest (if collected c then final w p' else p') of
             (ws, p'') \<Rightarrow> (w # ws, p'')))"

definition identities_issued :: "'c Worker list \<Rightarrow> 32 word list" where
  "identities_issued ws = map (\<lambda>w. id' (cWorker w)) ws"

datatype 'c registration = Async "'c jsfun" | Sync "'c jsfun"

fun register_all :: "'c registration list \<Rightarrow> 'c script \<Rightarrow> 'c script" where
  "register_all [] k = k"
| "register_all (Async func # rs) k = CallRecv (JSFunction func) (register_all rs k)"
| "register_all (Sync func # rs) k = CallRecvSync (JSFunction func) (register_all rs k)"

fun asyncs :: "'c registration list \<Rightarrow> 'c jsfun list" where
  "asyncs [] = []"
| "asyncs (Async func # rs) = func # asyncs rs"
| "asyncs (Sync func # rs) = asyncs rs"

fun syncs :: "'c registration list \<Rightarrow> 'c jsfun list" where
  "syncs [] = []"
| "syncs (Async func # rs) = syncs rs"
| "syncs (Sync func # rs) = func # syncs rs"

definition last_registered :: "'a list \<Rightarrow> 'a option \<Rightarrow> 'a option" where
  "last_registered funcs slot = (if funcs = [] then slot else Some (last funcs))"

definition after_registrations :: "'c registration list \<Rightarrow> 'c worker_s \<Rightarrow> 'c worker_s" where
  "after_registrations rs w =
     w\<lparr>recv := last_registered (asyncs rs) (recv w),
       recv_sync_handler := last_registered (syncs rs) (recv_sync_handler w)\<rparr>"

fun unnamed_loads ::
  "'c engine \<Rightarrow> 'c Worker \<Rightarrow> string list \<Rightarrow> 'h process
     \<Rightarrow> abort + (string list \<times> 'c Worker \<times> 'h process)" where
  "unnamed_loads eng w [] p = Inr ([], w, p)"
| "unnamed_loads eng w (code # codes) p =
     (case LoadWithOptions eng w None code p of
        Inl a \<Rightarrow> Inl a
      | Inr (err, origin, w', p') \<Rightarrow>
          (case unnamed_loads eng w' codes p' of
             Inl a \<Rightarrow> Inl a
           | Inr (names, w'', p'') \<Rightarrow> Inr (ScriptName origin # names, w'', p'')))"

section \<open>A small engine for concrete runs\<close>

text \<open>
  An engine that knows a handful of sources, for the examples.  Its context counts the
  units that have run.  The host keeps a log of the messages it receives.
\<close>

definition echo :: "nat jsfun" where
  "echo = (\<lambda>m c. Return c (JSString m))"

definition answer_42 :: "nat jsfun" where
  "answer_42 = (\<lambda>m c. Return c (JSNumber 42))"

definition forward :: "nat jsfun" where
  "forward = (\<lambda>m c. CallSend (JSString m) (Return c JSUndefined))"

definition forward_marked :: "nat jsfun" where
  "forward_marked = (\<lambda>m c. CallSend (JSString (m @ ''!'')) (Return c JSUndefined))"

definition syntax_error :: "v8_ScriptOrigin \<Rightarrow> string \<Rightarrow> try_catch" where
  "syntax_error origin source =
     \<lparr>Exception = Some ''SyntaxError: Unexpected token ;'',
      Message = Some \<lparr>ResourceName = Some (name origin),
                       GetLineNumber = 1 + line_offset origin,
                       GetSourceLine = Some source,
                       GetStartColumn = 8,
                       GetEndColumn = 9\<rparr>,
      StackTrace = None\<rparr>"

definition thrown_value :: try_catch where
  "thrown_value = \<lparr>Exception = Some ''boom'', Message = None, StackTrace = None\<rparr>"

definition demo_engine :: "nat engine" where
  "demo_engine =
     \<lparr>String_NewFromUtf8 = (\<lambda>s. s),
      Script_Compile = (\<lambda>source origin.
         if source = ''var x = ;'' then Inl (syntax_error origin source)
         else if source = ''throw 1'' then Inr (\<lambda>c. Throw (Suc c) thrown_value)
         else if source = ''$recv(1)''
           then Inr (\<lambda>c. CallRecv (JSNumber 1) (Return (Suc c) JSUndefined))
         else if source = ''$recv(forward)''
           then Inr (\<lambda>c. CallRecv (JSFunction forward) (Return (Suc c) JSUndefined))
         else if source = ''$recvSync(echo)''
           then Inr (\<lambda>c. CallRecvSync (JSFunction echo) (Return (Suc c) JSUndefined))
         else if source = ''$recvSync(answer_42)''
           then Inr (\<lambda>c. CallRecvSync (JSFunction answer_42) (Return (Suc c) JSUndefined))
         else Inr (\<lambda>c. Return (Suc c) JSUndefined)),
      Context_New = 0\<rparr>"

definition host_log :: "(string \<Rightarrow> string list \<Rightarrow> string list) option" where
  "host_log = Some (\<lambda>msg h. h @ [msg])"

definition host_reply :: "(string \<Rightarrow> string list \<Rightarrow> string \<times> string list) option" where
  "host_reply = Some (\<lambda>msg h. (''re: '' @ msg, h @ [msg]))"

definition demo_start :: "string list process" where
  "demo_start = process_start []"

definition demo_worker :: "nat Worker" where
  "demo_worker = fst (New demo_engine host_log host_reply demo_start)"

definition demo_finalizer :: "nat Worker \<Rightarrow> string list process \<Rightarrow> string list process" where
  "demo_finalizer = fst (snd (New demo_engine host_log host_reply demo_start))"

definition demo_process :: "string list process" where
  "demo_process = snd (snd (New demo_engine host_log host_reply demo_start))"

text \<open>
  A host callback that logs what it receives under a tag, and a process in which
  \<open>2 ^ 32 + 1\<close> workers are created one after the other: the first and the last with a
  callback of their own and kept, the others with none and collected at once.
\<close>

definition tagged :: "string \<Rightarrow> (string \<Rightarrow> string list \<Rightarrow> string list) option" where
  "tagged tag = Some (\<lambda>msg h. h @ [tag @ msg])"

definition kept :: "string \<Rightarrow> string list creation" where
  "kept tag = \<lparr>callback = tagged tag, sync_callback = None, collected = False\<rparr>"

definition passing :: "string list creation" where
  "passing = \<lparr>callback = None, sync_callback = None, collected = True\<rparr>"

definition crowd_callbacks :: "string list creation list" where
  "crowd_callbacks = kept ''first: '' # replicate (2 ^ 32 - 1) passing @ [kept ''last: '']"

definition crowd :: "nat Worker list \<times> string list process" where
  "crowd = create_all demo_engine crowd_callbacks demo_start"

section \<open>Properties of the text helpers\<close>

lemma NUL_notin_c_string: "NUL \<notin> set (c_string s)"
  by (auto simp: c_string_def dest: set_takeWhileD)

lemma c_string_without_NUL: "NUL \<notin> set s \<Longrightarrow> c_string s = s"
  by (auto simp: c_string_def)

lemma digit_char_in: "d < 10 \<Longrightarrow> digit_char d \<in> set ''0123456789''"
  unfolding digit_char_def by (rule nth_mem) simp

lemma set_digits: "set (digits n) \<subseteq> set ''0123456789''"
proof (induction n rule: digits.induct)
  case (1 n)
  show ?case
  proof (cases "n < 10")
    case True
    then show ?thesis
      using digit_char_in [of n] by (subst digits.simps) simp
  next
    case False
    then show ?thesis
      using 1 digit_char_in [of "n mod 10"] by (subst digits.simps) simp
  qed
qed

lemma NUL_notin_digits: "NUL \<notin> set (digits n)"
  using set_digits [of n] by (auto simp: NUL_def)

lemma minus_notin_digits: "CHR ''-'' \<notin> set (digits n)"
  using set_digits [of n] by auto

lemma NUL_notin_show_int: "NUL \<notin> set (show_int i)"
  by (simp add: show_int_def NUL_notin_digits) (simp add: NUL_def)

lemma append_loop_replicate:
  "append_loop i bound s out = out @ concat (replicate (nat (bound - i)) (c_string s))"
proof (induction i bound s out rule: append_loop.induct)
  case (1 i bound s out)
  show ?case
  proof (cases "i < bound")
    case True
    then have "nat (bound - i) = Suc (nat (bound - (i + 1)))" by simp
    with True 1 show ?thesis
      by (subst append_loop.simps) (simp add: append_cstr_def)
  next
    case False
    then show ?thesis by (subst append_loop.simps) simp
  qed
qed

lemma append_loop_char:
  "c \<noteq> NUL \<Longrightarrow> append_loop i bound [c] out = out @ replicate (nat (bound - i)) c"
proof -
  assume "c \<noteq> NUL"
  then have "c_string [c] = [c]" by (simp add: c_string_def)
  moreover have "concat (replicate k [c]) = replicate k c" for k
    by (induction k) simp_all
  ultimately show ?thesis by (simp add: append_loop_replicate)
qed

lemma length_digits: "n < 10 ^ k \<Longrightarrow> 0 < k \<Longrightarrow> length (digits n) \<le> k"
proof (induction k arbitrary: n)
  case 0
  then show ?case by simp
next
  case (Suc k)
  show ?case
  proof (cases "n < 10")
    case True
    then show ?thesis by (subst digits.simps) simp
  next
    case False
    with Suc.prems have k: "0 < k" by (cases k) auto
    from Suc.prems have "n div 10 < 10 ^ k" by (simp add: less_mult_imp_div_less mult.commute)
    with Suc.IH k have "length (digits (n div 10)) \<le> k" by blast
    with False show ?thesis by (subst digits.simps) simp
  qed
qed

lemma length_show_int32: "length (show_int (sint (v :: 32 word))) \<le> 11"
proof -
  have b: "- (2 ^ 31) \<le> sint v" "sint v < 2 ^ 31"
    using sint_ge [of v] sint_lt [of v] by simp_all
  show ?thesis
  proof (cases "sint v < 0")
    case True
    with b have "nat (- sint v) < 10 ^ 10" by simp
    then have "length (digits (nat (- sint v))) \<le> 10" by (rule length_digits) simp
    with True show ?thesis by (simp add: show_int_def)
  next
    case False
    with b have "nat (sint v) < 10 ^ 10" by simp
    then have "length (digits (nat (sint v))) \<le> 10" by (rule length_digits) simp
    with False show ?thesis by (simp add: show_int_def)
  qed
qed

lemma snprintf_i_20: "snprintf_i 20 v = show_int (sint v)"
  using length_show_int32 [of v] by (simp add: snprintf_i_def)

lemma c_string_newline: "c_string ''\<newline>'' = ''\<newline>''"
  by (simp add: c_string_def NUL_def)

lemma c_string_colon: "c_string '':'' = '':''"
  by (simp add: c_string_def NUL_def)


lemma NUL_notin_ExceptionString: "NUL \<notin> set (ExceptionString fault)"
proof (cases "Message fault")
  case None
  then show ?thesis
    by (simp add: ExceptionString_def Let_def append_cstr_def NUL_notin_c_string)
next
  case (Some position)
  have nl: "NUL \<noteq> CHR ''\<newline>''" "NUL \<noteq> CHR '':''" "NUL \<noteq> CHR '' ''" "NUL \<noteq> CHR ''^''"
    by (simp_all add: NUL_def)
  from Some show ?thesis
    using nl NUL_notin_show_int [of "sint (GetLineNumber position)"]
    by (auto simp: ExceptionString_def Let_def append_cstr_def append_loop_char snprintf_i_20
          NUL_notin_c_string c_string_without_NUL)
qed

lemma GoString_of_ExceptionString:
  "c_string (ExceptionString fault) = ExceptionString fault"
  by (rule c_string_without_NUL) (rule NUL_notin_ExceptionString)

section \<open>What running a script can and cannot change\<close>

lemma script_induct [case_names Return Throw CallPrint CallRecv CallRecvSync CallSend CallSendSync]:
  assumes "\<And>c v. P (Return c v)"
    and "\<And>c caught. P (Throw c caught)"
    and "\<And>args k. P k \<Longrightarrow> P (CallPrint args k)"
    and "\<And>v k. P k \<Longrightarrow> P (CallRecv v k)"
    and "\<And>v k. P k \<Longrightarrow> P (CallRecvSync v k)"
    and "\<And>v k. P k \<Longrightarrow> P (CallSend v k)"
    and "\<And>v k. (\<And>reply. P (k reply)) \<Longrightarrow> P (CallSendSync v k)"
  shows "P s"
  by (rule script.induct [where ?P1.0 = "\<lambda>_. True" and ?P2.0 = P]) (auto intro: assms)

lemma recv_after_diagnostic:
  "(w\<lparr>recv := x\<rparr>)\<lparr>last_exception := e\<rparr> = (w\<lparr>last_exception := e\<rparr>)\<lparr>recv := x\<rparr>"
  by (cases w) simp

lemma recv_sync_after_diagnostic:
  "(w\<lparr>recv_sync_handler := x\<rparr>)\<lparr>last_exception := e\<rparr>
     = (w\<lparr>last_exception := e\<rparr>)\<lparr>recv_sync_handler := x\<rparr>"
  by (cases w) simp

lemma context_after_diagnostic:
  "(w\<lparr>context' := x\<rparr>)\<lparr>last_exception := e\<rparr> = (w\<lparr>last_exception := e\<rparr>)\<lparr>context' := x\<rparr>"
  by (cases w) simp

lemma run_script_diagnostic_frame:
  "run_script eng s (w\<lparr>last_exception := e\<rparr>) p =
     map_sum id (\<lambda>(r, w', p'). (r, w'\<lparr>last_exception := e\<rparr>, p')) (run_script eng s w p)"
proof (induction s arbitrary: w p rule: script_induct)
  case (CallRecv v k)
  show ?case
  proof (cases v)
    case (JSFunction func)
    with CallRecv [of "w\<lparr>recv := Some func\<rparr>" p] show ?thesis
      by (simp add: Recv_def recv_after_diagnostic)
  qed (simp_all add: Recv_def)
next
  case (CallRecvSync v k)
  show ?case
  proof (cases v)
    case (JSFunction func)
    with CallRecvSync [of "w\<lparr>recv_sync_handler := Some func\<rparr>" p] show ?thesis
      by (simp add: RecvSync_def recv_sync_after_diagnostic)
  qed (simp_all add: RecvSync_def)
qed (auto simp: Send'_def SendSync'_def split: jsval.splits sum.splits prod.splits)

lemma run_script_keeps:
  "run_script eng s w p = Inr (r, w', p') \<Longrightarrow>
     id' w' = id' w \<and> last_exception w' = last_exception w
       \<and> initV8Once p' = initV8Once p \<and> scriptSequence p' = scriptSequence p
       \<and> workerIdSequence p' = workerIdSequence p \<and> callbacksMap p' = callbacksMap p"
proof (induction s arbitrary: w p rule: script_induct)
  case (CallSend v k)
  then show ?case
    by (auto simp: Send'_def recvCb_def Let_def split: jsval.splits sum.splits option.splits)
next
  case (CallSendSync v k)
  then show ?case
    by (fastforce simp: SendSync'_def recvSyncCb_def Let_def
          split: jsval.splits sum.splits option.splits prod.splits cptr.splits)
qed (auto simp: Recv_def RecvSync_def Print_def split: jsval.splits sum.splits)

section \<open>Arguments of the wrong kind\<close>

lemma Recv_wrong_argument: "(\<forall>func. v \<noteq> JSFunction func) \<Longrightarrow> Recv v w = Inl AssertionFailed"
  by (cases v) (simp_all add: Recv_def)

lemma RecvSync_wrong_argument:
  "(\<forall>func. v \<noteq> JSFunction func) \<Longrightarrow> RecvSync v w = Inl AssertionFailed"
  by (cases v) (simp_all add: RecvSync_def)

lemma Send_wrong_argument: "(\<forall>str. v \<noteq> JSString str) \<Longrightarrow> Send' v w p = Inl AssertionFailed"
  by (cases v) (simp_all add: Send'_def)

lemma SendSync_wrong_argument:
  "(\<forall>str. v \<noteq> JSString str) \<Longrightarrow> SendSync' eng v w p = Inl AssertionFailed"
  by (cases v) (simp_all add: SendSync'_def)

lemma wrong_argument_stops:
  "hands_wrong_argument eng s w p \<Longrightarrow> run_script eng s w p = Inl AssertionFailed"
proof (induction s arbitrary: w p rule: script_induct)
  case (CallRecv v k)
  show ?case
  proof (cases "\<exists>func. v = JSFunction func")
    case True
    with CallRecv show ?thesis by (auto split: sum.splits)
  next
    case False
    then show ?thesis by (simp add: Recv_wrong_argument)
  qed
next
  case (CallRecvSync v k)
  show ?case
  proof (cases "\<exists>func. v = JSFunction func")
    case True
    with CallRecvSync show ?thesis by (auto split: sum.splits)
  next
    case False
    then show ?thesis by (simp add: RecvSync_wrong_argument)
  qed
next
  case (CallSend v k)
  show ?case
  proof (cases "\<exists>str. v = JSString str")
    case True
    with CallSend show ?thesis by (auto split: sum.splits)
  next
    case False
    then show ?thesis by (simp add: Send_wrong_argument)
  qed
next
  case (CallSendSync v k)
  show ?case
  proof (cases "\<exists>str. v = JSString str")
    case True
    with CallSendSync show ?thesis by (auto split: sum.splits prod.splits)
  next
    case False
    then show ?thesis by (simp add: SendSync_wrong_argument)
  qed
qed simp_all

section \<open>The first worker of a process\<close>

lemma demo_worker_eq:
  "demo_worker = \<lparr>cWorker = worker_new demo_engine 0\<rparr>"
  by (simp add: demo_worker_def New_def nextWorkerId_def Let_def demo_start_def process_start_def)

lemma finalizer_removes_entry:
  "finalizer ident final_worker p = p\<lparr>callbacksMap := (callbacksMap p)(ident := None)\<rparr>"
  by (simp add: finalizer_def split: unit.splits)

lemma demo_finalizer_eq: "demo_finalizer = finalizer 0"
  by (simp add: demo_finalizer_def New_def nextWorkerId_def Let_def demo_start_def process_start_def)

lemma demo_process_eq:
  "demo_process =
     \<lparr>initV8Once = True, scriptSequence = 0, workerIdSequence = 1,
      callbacksMap = [0 \<mapsto> \<lparr>cb = host_log, syncCB = host_reply\<rparr>], host = [], stdout = []\<rparr>"
  by (simp add: demo_process_def New_def nextWorkerId_def Let_def demo_start_def process_start_def)

section \<open>Decimal output is injective\<close>

lemma digits_not_empty: "digits n \<noteq> []"
  by (subst digits.simps) simp

lemma digit_char_inj: "d < 10 \<Longrightarrow> e < 10 \<Longrightarrow> digit_char d = digit_char e \<Longrightarrow> d = e"
proof -
  assume d: "d < 10" and e: "e < 10" and eq: "digit_char d = digit_char e"
  have dist: "distinct ''0123456789''" by simp
  have len: "length ''0123456789'' = 10" by simp
  from d e len have "d < length ''0123456789''" "e < length ''0123456789''" by simp_all
  from nth_eq_iff_index_eq [OF dist this] eq show "d = e"
    unfolding digit_char_def by blast
qed

lemma digits_inj: "digits m = digits n \<Longrightarrow> m = n"
proof (induction m arbitrary: n rule: digits.induct)
  case (1 m)
  show ?case
  proof (cases "m < 10")
    case small_m: True
    show ?thesis
    proof (cases "n < 10")
      case True
      with small_m "1.prems" show ?thesis
        by (simp add: digits.simps [of m] digits.simps [of n] digit_char_inj)
    next
      case False
      with small_m "1.prems" digits_not_empty [of "n div 10"] show ?thesis
        by (simp add: digits.simps [of m] digits.simps [of n])
    qed
  next
    case big_m: False
    show ?thesis
    proof (cases "n < 10")
      case True
      with big_m "1.prems" digits_not_empty [of "m div 10"] show ?thesis
        by (simp add: digits.simps [of m] digits.simps [of n])
    next
      case False
      with big_m "1.prems" have
        q: "digits (m div 10) = digits (n div 10)" and
        r: "digit_char (m mod 10) = digit_char (n mod 10)"
        by (simp_all add: digits.simps [of m] digits.simps [of n])
      from "1.IH" [OF big_m q] have "m div 10 = n div 10" .
      moreover from r have "m mod 10 = n mod 10"
        by (rule digit_char_inj [rotated 2]) simp_all
      ultimately show ?thesis
        by (metis div_mult_mod_eq)
    qed
  qed
qed

lemma show_int_inj: "show_int i = show_int j \<Longrightarrow> i = j"
proof -
  assume eq: "show_int i = show_int j"
  have no_minus: "digits n \<noteq> CHR ''-'' # ds" for n ds
    using minus_notin_digits [of n] by auto
  show "i = j"
  proof (cases "i < 0")
    case neg_i: True
    show ?thesis
    proof (cases "j < 0")
      case True
      with neg_i eq have "digits (nat (- i)) = digits (nat (- j))"
        by (simp add: show_int_def)
      then have "nat (- i) = nat (- j)" by (rule digits_inj)
      with neg_i True show ?thesis by simp
    next
      case False
      with neg_i eq no_minus [of "nat j" "digits (nat (- i))"] show ?thesis
        by (simp add: show_int_def)
    qed
  next
    case pos_i: False
    show ?thesis
    proof (cases "j < 0")
      case True
      with pos_i eq no_minus [of "nat i" "digits (nat (- j))"] show ?thesis
        by (simp add: show_int_def)
    next
      case False
      with pos_i eq have "digits (nat i) = digits (nat j)"
        by (simp add: show_int_def)
      then have "nat i = nat j" by (rule digits_inj)
      with pos_i False show ?thesis by simp
    qed
  qed
qed

lemma strconv_Itoa_inj: "strconv_Itoa a = strconv_Itoa b \<Longrightarrow> a = b"
  unfolding strconv_Itoa_def by (rule signed_word_eqI) (rule show_int_inj)

lemma of_nat_64_inj:
  "k < 2 ^ 64 \<Longrightarrow> j < 2 ^ 64 \<Longrightarrow> (of_nat k :: 64 word) = of_nat j \<Longrightarrow> k = j"
  by (simp add: word_of_nat_eq_iff take_bit_nat_eq_self)

section \<open>The exception translator\<close>

text \<open>
  C6, as the code has it.  \<^const>\<open>ExceptionString\<close> yields one text.  With position
  metadata it is the resource name, a colon and the decimal line number; then the
  source line; then a marker line of as many spaces as the start column followed by one
  \<open>^\<close> for every column from the start column up to, and not including, the end column;
  then the stack trace when it has at least one byte, and the fault message in its place
  otherwise.
  Without position metadata it is the fault message.  Every part is read as a C string
  (it ends at its first NUL byte) and every line, the last included, ends in a newline.
\<close>

theorem ExceptionString_layout:
  "ExceptionString fault =
     (let fault_message = c_string (ToCString (Exception fault))
      in case Message fault of
           None \<Rightarrow> fault_message @ ''\<newline>''
         | Some position \<Rightarrow>
             c_string (ToCString (ResourceName position)) @ '':''
               @ show_int (sint (GetLineNumber position)) @ ''\<newline>''
               @ c_string (ToCString (GetSourceLine position)) @ ''\<newline>''
               @ replicate (nat (sint (GetStartColumn position))) CHR '' ''
               @ replicate (nat (sint (GetEndColumn position) - sint (GetStartColumn position)))
                   CHR ''^''
               @ ''\<newline>''
               @ (if Utf8Value_length (StackTrace fault) > 0
                  then c_string (ToCString (StackTrace fault))
                  else fault_message)
               @ ''\<newline>'')"
  by (cases "Message fault")
     (simp_all add: ExceptionString_def Let_def append_cstr_def snprintf_i_20 c_string_newline
        c_string_colon append_loop_char NUL_def c_string_without_NUL
        NUL_notin_show_int [unfolded NUL_def])

text \<open>A runtime fault on line 12 of \<open>main.js\<close>, columns 6 to 7, with a stack trace.\<close>

theorem ExceptionString_layout_witness:
  "ExceptionString
     \<lparr>Exception = Some ''ReferenceError: y is not defined'',
      Message = Some \<lparr>ResourceName = Some ''main.js'', GetLineNumber = 12,
                       GetSourceLine = Some ''  x = y;'', GetStartColumn = 6, GetEndColumn = 7\<rparr>,
      StackTrace = Some ''ReferenceError: y is not defined\<newline>    at main.js:12:7''\<rparr>
   = ''main.js:12\<newline>  x = y;\<newline>      ^\<newline>ReferenceError: y is not defined\<newline>    at main.js:12:7\<newline>''"
  unfolding ExceptionString_layout by code_simp

text \<open>
  C6 as stated says that without position metadata the diagnostic is the bare fault
  message.  For the fault message \<open>boom\<close> the diagnostic is not \<open>boom\<close>: a newline
  follows it.
\<close>

theorem ExceptionString_without_position_not_bare:
  "ExceptionString \<lparr>Exception = Some ''boom'', Message = None, StackTrace = None\<rparr> \<noteq> ''boom''"
  by (simp add: ExceptionString_def Let_def append_cstr_def ToCString_def c_string_def NUL_def)

section \<open>Loading a script\<close>

lemma worker_load_compiled:
  "worker_load eng cw (C_CString code) (C_CString (ScriptName origin)) (LineOffset origin)
       (ColumnOffset origin) (IsSharedCrossOrigin origin) (ScriptId origin)
       (IsEmbedderDebugScript origin) (C_CString (SourceMapURL origin)) (IsOpaque origin) p =
     (case compiled eng origin code of
        Inl try_catch \<Rightarrow> Inr (1, cw\<lparr>last_exception := ExceptionString try_catch\<rparr>, p)
      | Inr script \<Rightarrow>
          (case run_script eng (script (context' cw)) cw p of
             Inl a \<Rightarrow> Inl a
           | Inr (Inl try_catch, cw', p') \<Rightarrow>
               Inr (2, cw'\<lparr>last_exception := ExceptionString try_catch\<rparr>, p')
           | Inr (Inr result, cw', p') \<Rightarrow> Inr (0, cw', p')))"
  by (simp add: worker_load_def compiled_def Let_def)

lemma GoString_last_exception:
  "C_GoString (worker_last_exception (cw\<lparr>last_exception := ExceptionString fault\<rparr>))
     = Inr (ExceptionString fault)"
  by (simp add: C_GoString_def worker_last_exception_def function_return_def read_cptr_def
        GoString_of_ExceptionString)

lemma LoadWithOptions_compiled:
  "script_origin origin p = (named, p0) \<Longrightarrow>
   LoadWithOptions eng w origin code p =
     (case compiled eng named code of
        Inl fault \<Rightarrow>
          Inr (Some (errors_New (ExceptionString fault)), named,
               w\<lparr>cWorker := (cWorker w)\<lparr>last_exception := ExceptionString fault\<rparr>\<rparr>, p0)
      | Inr unit \<Rightarrow>
          (case run_script eng (unit (context' (cWorker w))) (cWorker w) p0 of
             Inl a \<Rightarrow> Inl a
           | Inr (Inl fault, cw, p1) \<Rightarrow>
               Inr (Some (errors_New (ExceptionString fault)), named,
                    w\<lparr>cWorker := cw\<lparr>last_exception := ExceptionString fault\<rparr>\<rparr>, p1)
           | Inr (Inr result, cw, p1) \<Rightarrow> Inr (None, named, w\<lparr>cWorker := cw\<rparr>, p1)))"
  by (simp add: LoadWithOptions_def worker_load_compiled GoString_last_exception
        split: sum.splits prod.splits)

text \<open>
  C2, as the code has it.  Let \<open>named\<close> be the origin the load runs under and
  \<open>compiled\<close> the engine's verdict on the source text submitted under it.
  \<^item> If compilation fails with a fault, \<^const>\<open>LoadWithOptions\<close> returns the fault's
    diagnostic as its error and stores the same text in the last-diagnostic slot; the
    handler slots and the context of the worker and the process are untouched, so the
    unit has not run.
  \<^item> If compilation yields a unit, the worker and the process that the call leaves are
    those of one run of the unit from the given state.  If that run ends in an uncaught
    fault, the call returns the fault's diagnostic as its error and stores it in the
    last-diagnostic slot.
  \<^item> If that run completes with a value, the call returns no error.
  \<^item> If that run comes to hand a reserved binding an argument that the binding's
    assertion rejects (\<open>$recv\<close> or \<open>$recvSync\<close> anything but a function, \<open>$send\<close> or
    \<open>$sendSync\<close> anything but a string), the process stops at the assertion and the call
    does not return.
\<close>

theorem LoadWithOptions_outcomes:
  "script_origin origin p = (named, p0) \<Longrightarrow>
     (\<forall>fault. compiled eng named code = Inl fault \<longrightarrow>
        LoadWithOptions eng w origin code p =
          Inr (Some (errors_New (ExceptionString fault)), named,
               w\<lparr>cWorker := (cWorker w)\<lparr>last_exception := ExceptionString fault\<rparr>\<rparr>, p0))
   \<and> (\<forall>unit fault cw p1.
        compiled eng named code = Inr unit \<longrightarrow>
        run_script eng (unit (context' (cWorker w))) (cWorker w) p0 = Inr (Inl fault, cw, p1) \<longrightarrow>
        LoadWithOptions eng w origin code p =
          Inr (Some (errors_New (ExceptionString fault)), named,
               w\<lparr>cWorker := cw\<lparr>last_exception := ExceptionString fault\<rparr>\<rparr>, p1))
   \<and> (\<forall>unit result cw p1.
        compiled eng named code = Inr unit \<longrightarrow>
        run_script eng (unit (context' (cWorker w))) (cWorker w) p0 = Inr (Inr result, cw, p1) \<longrightarrow>
        LoadWithOptions eng w origin code p = Inr (None, named, w\<lparr>cWorker := cw\<rparr>, p1))
   \<and> (\<forall>unit.
        compiled eng named code = Inr unit \<longrightarrow>
        hands_wrong_argument eng (unit (context' (cWorker w))) (cWorker w) p0 \<longrightarrow>
        LoadWithOptions eng w origin code p = Inl AssertionFailed)"
  by (simp add: LoadWithOptions_compiled wrong_argument_stops)

text \<open>
  Four loads into the first worker of a process, under the name \<open>app.js\<close>: a source
  that does not compile, a source that throws, a source that runs to its end, and a
  source that registers the number 1 as a handler.  The context of the demonstration
  engine counts the units that have run: it stays at 0 in the first case and is 1 after
  the second and the third.
\<close>

theorem LoadWithOptions_outcomes_witness:
  "LoadWithOptions demo_engine demo_worker (Some (new_ScriptOrigin\<lparr>ScriptName := ''app.js''\<rparr>))
       ''var x = ;'' demo_process
     = Inr (Some (errors_New
              ''app.js:1\<newline>var x = ;\<newline>        ^\<newline>SyntaxError: Unexpected token ;\<newline>''),
            new_ScriptOrigin\<lparr>ScriptName := ''app.js''\<rparr>,
            demo_worker\<lparr>cWorker := (cWorker demo_worker)\<lparr>last_exception :=
              ''app.js:1\<newline>var x = ;\<newline>        ^\<newline>SyntaxError: Unexpected token ;\<newline>''\<rparr>\<rparr>,
            demo_process)
   \<and> LoadWithOptions demo_engine demo_worker (Some (new_ScriptOrigin\<lparr>ScriptName := ''app.js''\<rparr>))
       ''throw 1'' demo_process
     = Inr (Some (errors_New ''boom\<newline>''),
            new_ScriptOrigin\<lparr>ScriptName := ''app.js''\<rparr>,
            demo_worker\<lparr>cWorker := (cWorker demo_worker)\<lparr>last_exception := ''boom\<newline>'',
                                                        context' := 1\<rparr>\<rparr>,
            demo_process)
   \<and> LoadWithOptions demo_engine demo_worker (Some (new_ScriptOrigin\<lparr>ScriptName := ''app.js''\<rparr>))
       ''x = 1'' demo_process
     = Inr (None,
            new_ScriptOrigin\<lparr>ScriptName := ''app.js''\<rparr>,
            demo_worker\<lparr>cWorker := (cWorker demo_worker)\<lparr>context' := 1\<rparr>\<rparr>,
            demo_process)
   \<and> LoadWithOptions demo_engine demo_worker (Some (new_ScriptOrigin\<lparr>ScriptName := ''app.js''\<rparr>))
       ''$recv(1)'' demo_process
     = Inl AssertionFailed"
proof -
  let ?origin = "new_ScriptOrigin\<lparr>ScriptName := ''app.js''\<rparr>"
  let ?fault = "syntax_error
      \<lparr>name = ''app.js'', line_offset = 0, column_offset = 0, is_shared_cross_origin = False,
       script_id = 0, is_embedder_debug_script = False, source_map_url = [], is_opaque = False\<rparr>
      ''var x = ;''"
  have named: "script_origin (Some ?origin) demo_process = (?origin, demo_process)"
    by (simp add: script_origin_def new_ScriptOrigin_def)
  have c1: "compiled demo_engine ?origin ''var x = ;'' = Inl ?fault"
    by (simp add: compiled_def demo_engine_def NewFromUtf8_def C_CString_def c_string_def NUL_def
          new_ScriptOrigin_def)
  have c2: "compiled demo_engine ?origin ''throw 1'' = Inr (\<lambda>c. Throw (Suc c) thrown_value)"
    by (simp add: compiled_def demo_engine_def NewFromUtf8_def C_CString_def c_string_def NUL_def)
  have c3: "compiled demo_engine ?origin ''x = 1'' = Inr (\<lambda>c. Return (Suc c) JSUndefined)"
    by (simp add: compiled_def demo_engine_def NewFromUtf8_def C_CString_def c_string_def NUL_def)
  have c4: "compiled demo_engine ?origin ''$recv(1)''
              = Inr (\<lambda>c. CallRecv (JSNumber 1) (Return (Suc c) JSUndefined))"
    by (simp add: compiled_def demo_engine_def NewFromUtf8_def C_CString_def c_string_def NUL_def)
  have r4: "hands_wrong_argument demo_engine
              ((\<lambda>c. CallRecv (JSNumber 1) (Return (Suc c) JSUndefined)) (context' (cWorker demo_worker)))
              (cWorker demo_worker) demo_process"
    by simp
  have r2: "run_script demo_engine ((\<lambda>c. Throw (Suc c) thrown_value) (context' (cWorker demo_worker)))
              (cWorker demo_worker) demo_process
            = Inr (Inl thrown_value, (cWorker demo_worker)\<lparr>context' := 1\<rparr>, demo_process)"
    by (simp add: demo_worker_eq worker_new_def demo_engine_def)
  have r3: "run_script demo_engine ((\<lambda>c. Return (Suc c) JSUndefined) (context' (cWorker demo_worker)))
              (cWorker demo_worker) demo_process
            = Inr (Inr JSUndefined, (cWorker demo_worker)\<lparr>context' := 1\<rparr>, demo_process)"
    by (simp add: demo_worker_eq worker_new_def demo_engine_def)
  have ctx: "context' (cWorker demo_worker) = 0"
    by (simp add: demo_worker_eq worker_new_def demo_engine_def)
  have d1: "ExceptionString ?fault
            = ''app.js:1\<newline>var x = ;\<newline>        ^\<newline>SyntaxError: Unexpected token ;\<newline>''"
    by code_simp
  have d2: "ExceptionString thrown_value = ''boom\<newline>''"
    by code_simp
  note outcomes = LoadWithOptions_outcomes [OF named, of demo_engine _ demo_worker]
  from outcomes [of "''var x = ;''"] c1 d1
  have a: "LoadWithOptions demo_engine demo_worker (Some ?origin) ''var x = ;'' demo_process
     = Inr (Some (errors_New
              ''app.js:1\<newline>var x = ;\<newline>        ^\<newline>SyntaxError: Unexpected token ;\<newline>''),
            ?origin,
            demo_worker\<lparr>cWorker := (cWorker demo_worker)\<lparr>last_exception :=
              ''app.js:1\<newline>var x = ;\<newline>        ^\<newline>SyntaxError: Unexpected token ;\<newline>''\<rparr>\<rparr>,
            demo_process)"
    by simp
  from outcomes [of "''throw 1''"] c2 r2 d2 ctx
  have b: "LoadWithOptions demo_engine demo_worker (Some ?origin) ''throw 1'' demo_process
     = Inr (Some (errors_New ''boom\<newline>''), ?origin,
            demo_worker\<lparr>cWorker := (cWorker demo_worker)\<lparr>last_exception := ''boom\<newline>'',
                                                        context' := 1\<rparr>\<rparr>,
            demo_process)"
    by (simp add: context_after_diagnostic)
  from outcomes [of "''x = 1''"] c3 r3 ctx
  have c: "LoadWithOptions demo_engine demo_worker (Some ?origin) ''x = 1'' demo_process
     = Inr (None, ?origin, demo_worker\<lparr>cWorker := (cWorker demo_worker)\<lparr>context' := 1\<rparr>\<rparr>,
            demo_process)"
    by simp
  from outcomes [of "''$recv(1)''"] c4 r4
  have d: "LoadWithOptions demo_engine demo_worker (Some ?origin) ''$recv(1)'' demo_process
     = Inl AssertionFailed"
    by simp
  from a b c d show ?thesis by blast
qed

text \<open>
  C2 as stated has every load return, with a diagnostic or with success.  A source that
  compiles and whose run registers the number 1 as async handler does neither: the
  assertion of the registering binding stops the process.
\<close>

theorem LoadWithOptions_assertion_stops:
  "LoadWithOptions demo_engine demo_worker None ''$recv(1)'' demo_process = Inl AssertionFailed"
  by (simp add: LoadWithOptions_def script_origin_def new_ScriptOrigin_def nextScriptName_def
        worker_load_def demo_engine_def NewFromUtf8_def C_CString_def c_string_def NUL_def
        Recv_def Let_def)

section \<open>Host to script, without a reply\<close>

lemma without_diagnostic_eqD:
  assumes "without_diagnostic w1 = without_diagnostic w2"
  shows "w1 = w2\<lparr>cWorker := (cWorker w2)\<lparr>last_exception := last_exception (cWorker w1)\<rparr>\<rparr>"
proof -
  obtain cw1 where w1: "w1 = \<lparr>cWorker = cw1\<rparr>" by (cases w1) auto
  obtain cw2 where w2: "w2 = \<lparr>cWorker = cw2\<rparr>" by (cases w2) auto
  from assms w1 w2 have c: "cw1\<lparr>last_exception := []\<rparr> = cw2\<lparr>last_exception := []\<rparr>"
    by (simp add: without_diagnostic_def)
  have "cw1 = cw2\<lparr>last_exception := last_exception cw1\<rparr>"
    using c by (cases cw1, cases cw2) simp
  with w1 w2 show ?thesis by simp
qed

lemma without_diagnostic_update [simp]:
  "without_diagnostic (w\<lparr>cWorker := cw\<lparr>last_exception := e\<rparr>\<rparr>) = without_diagnostic (w\<lparr>cWorker := cw\<rparr>)"
  by (simp add: without_diagnostic_def)

lemma LoadWithOptions_diagnostic_frame:
  "map_sum id (\<lambda>(err, origin', w', p'). (err, origin', without_diagnostic w', p'))
     (LoadWithOptions eng (w\<lparr>cWorker := (cWorker w)\<lparr>last_exception := e\<rparr>\<rparr>) origin code p)
   = map_sum id (\<lambda>(err, origin', w', p'). (err, origin', without_diagnostic w', p'))
     (LoadWithOptions eng w origin code p)"
  by (cases "script_origin origin p")
     (simp add: LoadWithOptions_compiled run_script_diagnostic_frame
        split: sum.splits prod.splits)

lemma Send_diagnostic_frame:
  "map_sum id (\<lambda>(err, w', p'). (err, without_diagnostic w', p'))
     (Send eng (w\<lparr>cWorker := (cWorker w)\<lparr>last_exception := e\<rparr>\<rparr>) msg p)
   = map_sum id (\<lambda>(err, w', p'). (err, without_diagnostic w', p')) (Send eng w msg p)"
  by (simp add: Send_def worker_send_def Call_def run_script_diagnostic_frame
        C_GoString_def worker_last_exception_def function_return_def read_cptr_def
        split: sum.splits prod.splits option.splits)

lemma worker_send_sync_diagnostic_frame:
  "worker_send_sync eng (cw\<lparr>last_exception := e\<rparr>) msg p =
     map_sum id (\<lambda>(r, cw', p'). (r, cw'\<lparr>last_exception := e\<rparr>, p'))
       (worker_send_sync eng cw msg p)"
proof (cases "recv_sync_handler cw")
  case None
  then show ?thesis by (simp add: worker_send_sync_def)
next
  case (Some handler)
  show ?thesis
  proof (cases "run_script eng (handler (NewFromUtf8 eng msg) (context' cw)) cw p")
    case (Inl a)
    with Some show ?thesis
      by (simp add: worker_send_sync_def Call_def run_script_diagnostic_frame)
  next
    case (Inr r)
    obtain completion cw' p' where r: "r = (completion, cw', p')" by (cases r) auto
    show ?thesis
    proof (cases completion)
      case (Inl caught)
      with Some Inr r show ?thesis
        by (simp add: worker_send_sync_def Call_def run_script_diagnostic_frame)
    next
      case Inr': (Inr response_value)
      with Some Inr r show ?thesis
        by (cases response_value)
           (simp_all add: worker_send_sync_def Call_def run_script_diagnostic_frame)
    qed
  qed
qed

lemma SendSync_diagnostic_frame:
  "map_sum id (\<lambda>(reply, w', p'). (reply, without_diagnostic w', p'))
     (SendSync eng (w\<lparr>cWorker := (cWorker w)\<lparr>last_exception := e\<rparr>\<rparr>) msg p)
   = map_sum id (\<lambda>(reply, w', p'). (reply, without_diagnostic w', p')) (SendSync eng w msg p)"
proof (cases "worker_send_sync eng (cWorker w) (C_CString msg) p")
  case (Inl a)
  then show ?thesis
    by (simp add: SendSync_def worker_send_sync_diagnostic_frame)
next
  case (Inr r)
  obtain svalue cw' p' where r: "r = (svalue, cw', p')" by (cases r) auto
  with Inr show ?thesis
    by (cases "C_GoString svalue")
       (simp_all add: SendSync_def worker_send_sync_diagnostic_frame)
qed

lemma operate_diagnostic_frame:
  "map_sum id (\<lambda>(out, w', p'). (out, without_diagnostic w', p'))
     (operate eng x (w\<lparr>cWorker := (cWorker w)\<lparr>last_exception := e\<rparr>\<rparr>) p)
   = map_sum id (\<lambda>(out, w', p'). (out, without_diagnostic w', p')) (operate eng x w p)"
proof (cases x)
  case (DoLoadWithOptions origin code)
  with LoadWithOptions_diagnostic_frame [where eng = eng and w = w and e = e and p = p
      and origin = origin and code = code] show ?thesis
    by (auto split: sum.splits)
next
  case (DoSend msg)
  with Send_diagnostic_frame [where eng = eng and w = w and e = e and p = p and msg = msg]
  show ?thesis
    by (auto split: sum.splits)
next
  case (DoSendSync msg)
  with SendSync_diagnostic_frame [where eng = eng and w = w and e = e and p = p and msg = msg]
  show ?thesis
    by (auto split: sum.splits)
qed

lemma operate_all_diagnostic_frame:
  "map_sum id (\<lambda>(outs, w', p'). (outs, without_diagnostic w', p'))
     (operate_all eng xs (w\<lparr>cWorker := (cWorker w)\<lparr>last_exception := e\<rparr>\<rparr>) p)
   = map_sum id (\<lambda>(outs, w', p'). (outs, without_diagnostic w', p')) (operate_all eng xs w p)"
proof (induction xs arbitrary: w e p)
  case Nil
  show ?case by (simp add: without_diagnostic_def)
next
  case (Cons x xs)
  let ?w = "w\<lparr>cWorker := (cWorker w)\<lparr>last_exception := e\<rparr>\<rparr>"
  note step = operate_diagnostic_frame [where eng = eng and x = x and w = w and e = e and p = p]
  show ?case
  proof (cases "operate eng x w p")
    case (Inl a)
    with step have "operate eng x ?w p = Inl a"
      by (cases "operate eng x ?w p") auto
    with Inl show ?thesis by simp
  next
    case (Inr r)
    obtain out w2 p2 where r: "r = (out, w2, p2)" by (cases r) auto
    from step Inr r obtain w1 where
      one: "operate eng x ?w p = Inr (out, w1, p2)" and
      same: "without_diagnostic w1 = without_diagnostic w2"
      by (cases "operate eng x ?w p") auto
    from without_diagnostic_eqD [OF same] obtain e' where
      w1: "w1 = w2\<lparr>cWorker := (cWorker w2)\<lparr>last_exception := e'\<rparr>\<rparr>"
      by blast
    have "map_sum id (\<lambda>(outs, w', p'). (outs, without_diagnostic w', p')) (operate_all eng xs w1 p2)
        = map_sum id (\<lambda>(outs, w', p'). (outs, without_diagnostic w', p')) (operate_all eng xs w2 p2)"
      unfolding w1 by (rule Cons.IH)
    with one Inr r show ?thesis
      by (auto split: sum.splits)
  qed
qed

text \<open>
  C3.  With no async inbound handler registered, \<^const>\<open>Send\<close> returns the error
  \<open>$recv not called\<close>.  The worker it leaves differs from the one it was given in the
  last-diagnostic slot only: both handler slots, the context and the identity are as
  before, and so is the process.  Every sequence of loads and sends run afterwards on
  that worker has the outcomes it would have had without the failed call, and leaves the
  same process and, the last-diagnostic slot apart, the same worker.
\<close>

theorem Send_without_handler:
  "recv (cWorker w) = None \<Longrightarrow>
     Send eng w msg p =
       Inr (Some (errors_New ''$recv not called''),
            w\<lparr>cWorker := (cWorker w)\<lparr>last_exception := ''$recv not called''\<rparr>\<rparr>, p)
     \<and> map_sum id (\<lambda>(outs, w', p'). (outs, without_diagnostic w', p'))
         (operate_all eng xs
            (w\<lparr>cWorker := (cWorker w)\<lparr>last_exception := ''$recv not called''\<rparr>\<rparr>) p)
       = map_sum id (\<lambda>(outs, w', p'). (outs, without_diagnostic w', p'))
         (operate_all eng xs w p)"
  by (simp add: operate_all_diagnostic_frame)
     (simp add: Send_def worker_send_def C_GoString_def worker_last_exception_def
        function_return_def read_cptr_def c_string_def NUL_def)

lemma outcomes_of_lifted:
  "map_sum id fst (map_sum id (\<lambda>(outs, w', p'). (outs, without_diagnostic w', p')) r) = map_sum id fst r"
  by (cases r) auto

text \<open>
  The first worker of a process has no handler: a send fails.  A load that registers an
  async handler and a second send, run on the worker the failed send left, both succeed.
\<close>

theorem Send_without_handler_witness:
  "recv (cWorker demo_worker) = None
   \<and> Send demo_engine demo_worker ''a'' demo_process
       = Inr (Some (errors_New ''$recv not called''),
              demo_worker\<lparr>cWorker := (cWorker demo_worker)\<lparr>last_exception := ''$recv not called''\<rparr>\<rparr>,
              demo_process)
   \<and> map_sum id fst
         (operate_all demo_engine [DoLoadWithOptions None ''$recv(forward)'', DoSend ''b'']
            (demo_worker\<lparr>cWorker := (cWorker demo_worker)\<lparr>last_exception := ''$recv not called''\<rparr>\<rparr>)
            demo_process)
       = Inr [Loaded None (new_ScriptOrigin\<lparr>ScriptName := ''VM0''\<rparr>), Sent None]"
proof -
  let ?xs = "[DoLoadWithOptions None ''$recv(forward)'', DoSend ''b'']"
  have h: "recv (cWorker demo_worker) = None"
    by (simp add: demo_worker_eq worker_new_def)
  have d: "strconv_Itoa 0 = ''0''"
    by code_simp
  have untouched:
    "map_sum id fst (operate_all demo_engine ?xs demo_worker demo_process)
       = Inr [Loaded None (new_ScriptOrigin\<lparr>ScriptName := ''VM0''\<rparr>), Sent None]"
    by (simp add: demo_worker_eq demo_process_eq worker_new_def Let_def LoadWithOptions_def
          script_origin_def new_ScriptOrigin_def nextScriptName_def d worker_load_def
          demo_engine_def NewFromUtf8_def C_CString_def c_string_def NUL_def Recv_def
          Send_def worker_send_def Call_def forward_def Send'_def recvCb_def ToCString_def
          host_log_def)
  note claim = Send_without_handler [OF h, of demo_engine "''a''" demo_process ?xs]
  from claim have
    "map_sum id fst
       (operate_all demo_engine ?xs
          (demo_worker\<lparr>cWorker := (cWorker demo_worker)\<lparr>last_exception := ''$recv not called''\<rparr>\<rparr>)
          demo_process)
     = map_sum id fst (operate_all demo_engine ?xs demo_worker demo_process)"
    by (metis outcomes_of_lifted)
  with untouched h claim show ?thesis by simp
qed

section \<open>Host to script, with a reply\<close>

text \<open>
  C4.  With no sync inbound handler registered, \<^const>\<open>SendSync\<close> returns the text
  \<open>err: $recvSync not called\<close> as its ordinary string result, for every message: the call
  returns (it does not abort), the worker and the process are as before, and nothing is
  written to the last-diagnostic slot.
\<close>

theorem SendSync_without_handler:
  "recv_sync_handler (cWorker w) = None \<Longrightarrow>
     SendSync eng w msg p = Inr (''err: $recvSync not called'', w, p)"
  by (simp add: SendSync_def worker_send_sync_def function_return_def C_GoString_def
        read_cptr_def c_string_def NUL_def)

theorem SendSync_without_handler_witness:
  "recv_sync_handler (cWorker demo_worker) = None
   \<and> SendSync demo_engine demo_worker ''ping'' demo_process
       = Inr (''err: $recvSync not called'', demo_worker, demo_process)"
proof -
  have h: "recv_sync_handler (cWorker demo_worker) = None"
    by (simp add: demo_worker_eq worker_new_def)
  from h SendSync_without_handler [OF h, of demo_engine "''ping''" demo_process]
  show ?thesis by simp
qed

text \<open>
  C5.  When the registered sync inbound handler, called with the message, returns a
  value that is not a string, \<^const>\<open>SendSync\<close> returns the text
  \<open>err: non-string return value\<close> as its result; the call returns, with the worker and the
  process as the handler's run left them.
\<close>

theorem SendSync_non_string_reply:
  "recv_sync_handler (cWorker w) = Some handler \<Longrightarrow>
   run_script eng (handler (NewFromUtf8 eng (C_CString msg)) (context' (cWorker w))) (cWorker w) p
     = Inr (Inr v, cw, p') \<Longrightarrow>
   (\<forall>s. v \<noteq> JSString s) \<Longrightarrow>
     SendSync eng w msg p = Inr (''err: non-string return value'', w\<lparr>cWorker := cw\<rparr>, p')"
  by (cases v)
     (simp_all add: SendSync_def worker_send_sync_def Call_def function_return_def C_GoString_def
        read_cptr_def c_string_def NUL_def)

theorem SendSync_non_string_reply_witness:
  "SendSync demo_engine (demo_worker\<lparr>cWorker := (cWorker demo_worker)\<lparr>recv_sync_handler := Some answer_42\<rparr>\<rparr>)
     ''how many?'' demo_process
   = Inr (''err: non-string return value'',
          demo_worker\<lparr>cWorker := (cWorker demo_worker)\<lparr>recv_sync_handler := Some answer_42\<rparr>\<rparr>,
          demo_process)"
proof -
  let ?cw = "(cWorker demo_worker)\<lparr>recv_sync_handler := Some answer_42\<rparr>"
  let ?w = "demo_worker\<lparr>cWorker := ?cw\<rparr>"
  have h1: "recv_sync_handler (cWorker ?w) = Some answer_42" by simp
  have h2: "run_script demo_engine
              (answer_42 (NewFromUtf8 demo_engine (C_CString ''how many?'')) (context' (cWorker ?w)))
              (cWorker ?w) demo_process
            = Inr (Inr (JSNumber 42), ?cw, demo_process)"
    by (simp add: answer_42_def demo_worker_eq worker_new_def)
  have h3: "\<forall>s. JSNumber 42 \<noteq> (JSString s :: nat jsval)" by simp
  from SendSync_non_string_reply [OF h1 h2 h3] show ?thesis by simp
qed

text \<open>
  C1 is the round trip through \<^const>\<open>SendSync\<close> when the sync inbound handler returns
  its argument.  On the code the reply is copied into the local string \<open>out\<close> of
  \<open>worker_send_sync\<close>, and the pointer handed back points into that string, which is
  destroyed when the function returns.  The run below loads, into the first worker of a
  process, a script that registers the handler, and sends \<open>hello\<close>: the load succeeds,
  \<open>worker_send_sync\<close> hands back a pointer to released storage that held \<open>hello\<close>, and
  \<^const>\<open>SendSync\<close> reads through it.
\<close>

theorem SendSync_echo_reads_released_storage:
  "(case LoadWithOptions demo_engine demo_worker None ''$recvSync(echo)'' demo_process of
      Inl a \<Rightarrow> None
    | Inr (err, origin, w, p) \<Rightarrow>
        Some (err,
              map_sum id fst (worker_send_sync demo_engine (cWorker w) (C_CString ''hello'') p),
              map_sum id fst (SendSync demo_engine w ''hello'' p)))
   = Some (None, Inr (Dangling ''hello''), Inl DanglingPointerRead)"
  by (simp add: demo_worker_eq demo_process_eq worker_new_def Let_def LoadWithOptions_def
        script_origin_def new_ScriptOrigin_def nextScriptName_def worker_load_def demo_engine_def
        NewFromUtf8_def C_CString_def c_string_def NUL_def RecvSync_def
        SendSync_def worker_send_sync_def Call_def echo_def append_cstr_def function_return_def
        C_GoString_def read_cptr_def)

lemma worker_send_sync_string_reply:
  "recv_sync_handler w = Some handler \<Longrightarrow>
   run_script eng (handler (NewFromUtf8 eng msg) (context' w)) w p = Inr (Inr (JSString s), w', p')
   \<Longrightarrow> worker_send_sync eng w msg p = Inr (Dangling (c_string s), w', p')"
  by (simp add: worker_send_sync_def Call_def append_cstr_def function_return_def)

lemma worker_send_sync_identity_handler:
  "recv_sync_handler w = Some (\<lambda>m c. Return c (JSString m)) \<Longrightarrow> NUL \<notin> set msg \<Longrightarrow>
   String_NewFromUtf8 eng msg = msg \<Longrightarrow>
     worker_send_sync eng w (C_CString msg) p = Inr (Dangling msg, w, p)"
  by (simp add: worker_send_sync_def Call_def NewFromUtf8_def C_CString_def c_string_without_NUL
        append_cstr_def function_return_def)

lemma SendSync_string_reply:
  "recv_sync_handler (cWorker w) = Some handler \<Longrightarrow>
   run_script eng (handler (NewFromUtf8 eng (C_CString msg)) (context' (cWorker w))) (cWorker w) p
     = Inr (Inr (JSString s), cw, p')
   \<Longrightarrow> SendSync eng w msg p = Inl DanglingPointerRead"
  by (simp add: SendSync_def worker_send_sync_string_reply C_GoString_def read_cptr_def)

section \<open>Script to host\<close>

text \<open>
  C10.  \<^const>\<open>recvCb\<close> and \<^const>\<open>recvSyncCb\<close> read a field of the registry entry
  without testing that the lookup found one.  Whenever the registry has no entry for the
  identity they are called with, both stop with a nil dereference: neither returns, and
  neither reports an error value.
\<close>

theorem dispatch_without_registry_entry:
  "callbacksMap p workerId = None \<Longrightarrow>
     recvCb msg_s workerId p = Inl NilPointerDereference
     \<and> recvSyncCb msg_s workerId p = Inl NilPointerDereference"
  by (simp add: recvCb_def recvSyncCb_def)

text \<open>
  The first worker of a process has identity 0.  Once the finalizer that \<open>New\<close> set on
  it has run, the entry for identity 0 is gone, and a message dispatched for identity 0
  finds nothing.
\<close>

theorem dispatch_without_registry_entry_witness:
  "callbacksMap (demo_finalizer demo_worker demo_process) 0 = None
   \<and> recvCb ''late'' 0 (demo_finalizer demo_worker demo_process)
       = Inl NilPointerDereference
   \<and> recvSyncCb ''late'' 0 (demo_finalizer demo_worker demo_process)
       = Inl NilPointerDereference"
proof -
  have h: "callbacksMap (demo_finalizer demo_worker demo_process) 0 = None"
    by (simp add: demo_finalizer_eq finalizer_removes_entry)
  from h dispatch_without_registry_entry [OF h, of "''late''"] show ?thesis by simp
qed

lemma script_send_without_registry_entry:
  "callbacksMap p (ucast (id' w)) = None \<Longrightarrow>
     run_script eng (CallSend (JSString m) k) w p = Inl NilPointerDereference"
  by (simp add: Send'_def recvCb_def)

lemma dispatch_with_registry_entry:
  "callbacksMap p workerId = Some entry \<Longrightarrow> cb entry = Some fn \<Longrightarrow>
     recvCb msg_s workerId p = Inr (p\<lparr>host := fn (c_string msg_s) (host p)\<rparr>)"
  by (simp add: recvCb_def)

section \<open>The handler slots\<close>

lemma run_register_all:
  "run_script eng (register_all rs k) w p = run_script eng k (after_registrations rs w) p"
proof (induction rs arbitrary: w)
  case Nil
  show ?case by (simp add: after_registrations_def last_registered_def)
next
  case (Cons r rs)
  show ?case
  proof (cases r)
    case (Async func)
    have "after_registrations rs (w\<lparr>recv := Some func\<rparr>) = after_registrations (r # rs) w"
      using Async by (cases w) (simp add: after_registrations_def last_registered_def)
    with Cons [of "w\<lparr>recv := Some func\<rparr>"] Async show ?thesis
      by (simp add: Recv_def)
  next
    case (Sync func)
    have "after_registrations rs (w\<lparr>recv_sync_handler := Some func\<rparr>)
            = after_registrations (r # rs) w"
      using Sync by (cases w) (simp add: after_registrations_def last_registered_def)
    with Cons [of "w\<lparr>recv_sync_handler := Some func\<rparr>"] Sync show ?thesis
      by (simp add: RecvSync_def)
  qed
qed

text \<open>
  C8.  A worker as \<^const>\<open>worker_new\<close> makes it has both handler slots empty.  A script
  that makes the registrations \<open>rs\<close> in order, through the two registering bindings,
  leaves in each slot the last function registered for that kind, or what the slot held
  before when \<open>rs\<close> has no registration of that kind; nothing else of the worker
  changes.  A message sent afterwards is handed to that last function and to no other:
  \<^const>\<open>worker_send\<close> calls the last async registration, \<^const>\<open>worker_send_sync\<close> the
  last sync registration.
\<close>

theorem handler_slots_last_registration_wins:
  "recv (worker_new eng worker_id) = None
   \<and> recv_sync_handler (worker_new eng worker_id) = None
   \<and> run_script eng (register_all rs (Return c v)) w p
       = Inr (Inr v, (after_registrations rs w)\<lparr>context' := c\<rparr>, p)
   \<and> (asyncs rs \<noteq> [] \<longrightarrow>
        recv (after_registrations rs w) = Some (last (asyncs rs))
        \<and> worker_send eng (after_registrations rs w) msg p =
            (case Call eng (last (asyncs rs)) (NewFromUtf8 eng msg) (after_registrations rs w) p of
               Inl a \<Rightarrow> Inl a
             | Inr (Inl try_catch, w', p') \<Rightarrow>
                 Inr (2, w'\<lparr>last_exception := ExceptionString try_catch\<rparr>, p')
             | Inr (Inr result, w', p') \<Rightarrow> Inr (0, w', p')))
   \<and> (syncs rs \<noteq> [] \<longrightarrow>
        recv_sync_handler (after_registrations rs w) = Some (last (syncs rs))
        \<and> worker_send_sync eng (after_registrations rs w) msg p =
            (case Call eng (last (syncs rs)) (NewFromUtf8 eng msg) (after_registrations rs w) p of
               Inl a \<Rightarrow> Inl a
             | Inr (Inl try_catch, w', p') \<Rightarrow> Inl EmptyHandleDereference
             | Inr (Inr response_value, w', p') \<Rightarrow>
                 (case response_value of
                    JSString response \<Rightarrow> Inr (Dangling (c_string response), w', p')
                  | _ \<Rightarrow> Inr (Ptr Static ''err: non-string return value'', w', p'))))"
proof -
  have fresh: "recv (worker_new eng worker_id) = None"
    "recv_sync_handler (worker_new eng worker_id) = None"
    by (simp_all add: worker_new_def)
  have run: "run_script eng (register_all rs (Return c v)) w p
               = Inr (Inr v, (after_registrations rs w)\<lparr>context' := c\<rparr>, p)"
    by (simp add: run_register_all)
  have async: "worker_send eng (after_registrations rs w) msg p =
            (case Call eng (last (asyncs rs)) (NewFromUtf8 eng msg) (after_registrations rs w) p of
               Inl a \<Rightarrow> Inl a
             | Inr (Inl try_catch, w', p') \<Rightarrow>
                 Inr (2, w'\<lparr>last_exception := ExceptionString try_catch\<rparr>, p')
             | Inr (Inr result, w', p') \<Rightarrow> Inr (0, w', p'))"
    and slot: "recv (after_registrations rs w) = Some (last (asyncs rs))"
    if "asyncs rs \<noteq> []"
    using that by (simp_all add: worker_send_def after_registrations_def last_registered_def)
  have sync: "worker_send_sync eng (after_registrations rs w) msg p =
            (case Call eng (last (syncs rs)) (NewFromUtf8 eng msg) (after_registrations rs w) p of
               Inl a \<Rightarrow> Inl a
             | Inr (Inl try_catch, w', p') \<Rightarrow> Inl EmptyHandleDereference
             | Inr (Inr response_value, w', p') \<Rightarrow>
                 (case response_value of
                    JSString response \<Rightarrow> Inr (Dangling (c_string response), w', p')
                  | _ \<Rightarrow> Inr (Ptr Static ''err: non-string return value'', w', p')))"
    and sslot: "recv_sync_handler (after_registrations rs w) = Some (last (syncs rs))"
    if "syncs rs \<noteq> []"
    using that
    by (simp_all add: worker_send_sync_def after_registrations_def last_registered_def
          function_return_def append_cstr_def
          split: sum.splits prod.splits jsval.splits)
  from fresh run async slot sync sslot show ?thesis by blast
qed

text \<open>
  A script registers, in this order, two async handlers and two sync handlers in the
  first worker of a process.  A message sent afterwards reaches the host through the
  second async handler only (it arrives marked), and a request is answered by the second
  sync handler.
\<close>

theorem handler_slots_last_registration_wins_witness:
  "recv (worker_new demo_engine 0) = None
   \<and> recv_sync_handler (worker_new demo_engine 0) = None
   \<and> run_script demo_engine
         (register_all [Async forward, Sync echo, Async forward_marked, Sync answer_42]
            (Return 1 JSUndefined))
         (cWorker demo_worker) demo_process
       = Inr (Inr JSUndefined,
              (cWorker demo_worker)\<lparr>recv := Some forward_marked, context' := 1,
                                     recv_sync_handler := Some answer_42\<rparr>,
              demo_process)
   \<and> worker_send demo_engine
         ((cWorker demo_worker)\<lparr>recv := Some forward_marked, recv_sync_handler := Some answer_42\<rparr>)
         ''hi'' demo_process
       = Inr (0,
              (cWorker demo_worker)\<lparr>recv := Some forward_marked, recv_sync_handler := Some answer_42\<rparr>,
              demo_process\<lparr>host := [''hi!'']\<rparr>)
   \<and> worker_send_sync demo_engine
         ((cWorker demo_worker)\<lparr>recv := Some forward_marked, recv_sync_handler := Some answer_42\<rparr>)
         ''hi'' demo_process
       = Inr (Ptr Static ''err: non-string return value'',
              (cWorker demo_worker)\<lparr>recv := Some forward_marked, recv_sync_handler := Some answer_42\<rparr>,
              demo_process)"
proof -
  let ?rs = "[Async forward, Sync echo, Async forward_marked, Sync answer_42]"
  let ?w = "(cWorker demo_worker)\<lparr>recv := Some forward_marked, recv_sync_handler := Some answer_42\<rparr>"
  have after: "after_registrations ?rs (cWorker demo_worker) = ?w"
    by (simp add: after_registrations_def last_registered_def)
  have a: "asyncs ?rs \<noteq> []" and s: "syncs ?rs \<noteq> []" by simp_all
  have la: "last (asyncs ?rs) = forward_marked" and ls: "last (syncs ?rs) = answer_42"
    by simp_all
  have call_a: "Call demo_engine forward_marked (NewFromUtf8 demo_engine ''hi'') ?w demo_process
                  = Inr (Inr JSUndefined, ?w, demo_process\<lparr>host := [''hi!'']\<rparr>)"
    by (simp add: Call_def forward_marked_def demo_engine_def NewFromUtf8_def c_string_def NUL_def
          Send'_def recvCb_def ToCString_def demo_worker_eq demo_process_eq worker_new_def
          host_log_def)
  have call_s: "Call demo_engine answer_42 (NewFromUtf8 demo_engine ''hi'') ?w demo_process
                  = Inr (Inr (JSNumber 42), ?w, demo_process)"
    by (simp add: Call_def answer_42_def demo_worker_eq worker_new_def)
  note claim = handler_slots_last_registration_wins
    [of demo_engine 0 ?rs 1 JSUndefined "cWorker demo_worker" demo_process "''hi''"]
  from claim a s show ?thesis
    unfolding after la ls call_a call_s by (simp add: context_after_diagnostic)
qed

section \<open>Worker identities\<close>

lemma creation_facts:
  "New eng (callback c) (sync_callback c) p = (w, final, p1) \<Longrightarrow>
   p2 = (if collected c then final w p1 else p1) \<Longrightarrow>
     id' (cWorker w) = ucast (workerIdSequence p)
     \<and> workerIdSequence p2 = workerIdSequence p + 1
     \<and> callbacksMap p2 = (callbacksMap p)(workerIdSequence p :=
          if collected c then None else Some \<lparr>cb = callback c, syncCB = sync_callback c\<rparr>)
     \<and> host p2 = host p"
  by (auto simp: New_def nextWorkerId_def Let_def worker_new_def finalizer_removes_entry)

lemma of_nat_Suc_64_not_zero: "j < 2 ^ 64 - 1 \<Longrightarrow> (1 :: 64 word) + of_nat j \<noteq> 0"
proof
  assume j: "j < 2 ^ 64 - 1" and z: "(1 :: 64 word) + of_nat j = 0"
  from z have "(of_nat (Suc j) :: 64 word) = 0" by simp
  then have "2 ^ 64 dvd Suc j" by (simp only: word_of_nat_eq_0_iff len_num1 len_bit0 mult_1_right) simp
  then have "(2 :: nat) ^ 64 \<le> Suc j" by (rule dvd_imp_le) simp
  with j show False by simp
qed

lemma create_all_Cons:
  assumes "create_all eng (c # cbs) p = (ws, p')"
  obtains w final p1 p2 ws' where
    "New eng (callback c) (sync_callback c) p = (w, final, p1)"
    "p2 = (if collected c then final w p1 else p1)"
    "create_all eng cbs p2 = (ws', p')" "ws = w # ws'"
proof -
  obtain w final p1 where new: "New eng (callback c) (sync_callback c) p = (w, final, p1)"
    by (cases "New eng (callback c) (sync_callback c) p") auto
  define p2 where "p2 = (if collected c then final w p1 else p1)"
  obtain ws' p'' where rest: "create_all eng cbs p2 = (ws', p'')"
    by (cases "create_all eng cbs p2") auto
  from assms new rest have "ws = w # ws'" "p'' = p'"
    by (simp_all add: p2_def)
  with new p2_def rest that show thesis by blast
qed

lemma create_all_length: "create_all eng cbs p = (ws, p') \<Longrightarrow> length ws = length cbs"
proof (induction cbs arbitrary: p ws)
  case Nil
  then show ?case by simp
next
  case (Cons c cbs)
  from Cons.prems obtain w final p1 p2 ws' where
    rest: "create_all eng cbs p2 = (ws', p')" and ws: "ws = w # ws'"
    by (rule create_all_Cons)
  from Cons.IH [OF rest] ws show ?case by simp
qed

lemma create_all_host: "create_all eng cbs p = (ws, p') \<Longrightarrow> host p' = host p"
proof (induction cbs arbitrary: p ws)
  case Nil
  then show ?case by simp
next
  case (Cons c cbs)
  from Cons.prems obtain w final p1 p2 ws' where
    new: "New eng (callback c) (sync_callback c) p = (w, final, p1)" and
    p2: "p2 = (if collected c then final w p1 else p1)" and
    rest: "create_all eng cbs p2 = (ws', p')"
    by (rule create_all_Cons)
  from Cons.IH [OF rest] creation_facts [OF new p2] show ?case by simp
qed

lemma create_all_frame:
  "create_all eng cbs p = (ws, p') \<Longrightarrow>
   (\<forall>j < length cbs. x \<noteq> workerIdSequence p + of_nat j) \<Longrightarrow>
     callbacksMap p' x = callbacksMap p x"
proof (induction cbs arbitrary: p ws p')
  case Nil
  then show ?case by simp
next
  case (Cons c cbs)
  from Cons.prems(1) obtain w final p1 p2 ws' where
    new: "New eng (callback c) (sync_callback c) p = (w, final, p1)" and
    p2: "p2 = (if collected c then final w p1 else p1)" and
    rest: "create_all eng cbs p2 = (ws', p')" and ws: "ws = w # ws'"
    by (rule create_all_Cons)
  note facts = creation_facts [OF new p2]
  have "\<forall>j < length cbs. x \<noteq> workerIdSequence p2 + of_nat j"
  proof (intro allI impI)
    fix j assume "j < length cbs"
    then have "x \<noteq> workerIdSequence p + of_nat (Suc j)" using Cons.prems(2) by auto
    with facts show "x \<noteq> workerIdSequence p2 + of_nat j" by (simp add: add.assoc)
  qed
  from Cons.IH [OF rest this] have
    "callbacksMap p' x = callbacksMap p2 x" .
  moreover from Cons.prems(2) have "x \<noteq> workerIdSequence p" by force
  ultimately show ?case using facts by simp
qed

lemma create_all_workers:
  "create_all eng cbs p = (ws, p') \<Longrightarrow> length cbs \<le> 2 ^ 64 \<Longrightarrow> k < length cbs \<Longrightarrow>
     id' (cWorker (ws ! k)) = ucast (workerIdSequence p + of_nat k)
     \<and> callbacksMap p' (workerIdSequence p + of_nat k)
         = (if collected (cbs ! k) then None
            else Some \<lparr>cb = callback (cbs ! k), syncCB = sync_callback (cbs ! k)\<rparr>)"
proof (induction cbs arbitrary: p ws p' k)
  case Nil
  then show ?case by simp
next
  case (Cons c cbs)
  from Cons.prems(1) obtain w final p1 p2 ws' where
    new: "New eng (callback c) (sync_callback c) p = (w, final, p1)" and
    p2: "p2 = (if collected c then final w p1 else p1)" and
    rest: "create_all eng cbs p2 = (ws', p')" and ws: "ws = w # ws'"
    by (rule create_all_Cons)
  note facts = creation_facts [OF new p2]
  show ?case
  proof (cases k)
    case 0
    have "\<forall>j < length cbs. workerIdSequence p \<noteq> workerIdSequence p2 + of_nat j"
    proof (intro allI impI)
      fix j assume "j < length cbs"
      with Cons.prems(2) have "j < 2 ^ 64 - 1" by simp
      from of_nat_Suc_64_not_zero [OF this] facts
      show "workerIdSequence p \<noteq> workerIdSequence p2 + of_nat j"
        by (simp add: add.assoc)
    qed
    from create_all_frame [OF rest this] facts 0 ws show ?thesis by simp
  next
    case (Suc j)
    with Cons.prems have "length cbs \<le> 2 ^ 64" "j < length cbs" by simp_all
    from Cons.IH [OF rest this] facts Suc ws show ?thesis
      by (simp add: add.assoc)
  qed
qed

lemma ucast_add_32: "(ucast ((s :: 64 word) + of_nat k) :: 32 word) = ucast s + of_nat k"
proof -
  have d: "is_down (ucast :: 64 word \<Rightarrow> 32 word)" by (simp add: is_down)
  have "s + of_nat k = word_of_int (uint s + int k)" by simp
  then have "(ucast (s + of_nat k) :: 32 word) = word_of_int (uint s + int k)"
    by (simp only: ucast_down_wi [OF d])
  moreover have "(ucast s :: 32 word) = word_of_int (uint s)"
    using ucast_down_wi [OF d, of "uint s"] by (simp only: word_of_int_uint)
  ultimately show ?thesis by (simp only: of_int_add of_int_of_nat_eq)
qed

lemma of_nat_32_inj:
  "k < 2 ^ 32 \<Longrightarrow> j < 2 ^ 32 \<Longrightarrow> (of_nat k :: 32 word) = of_nat j \<Longrightarrow> k = j"
  by (simp add: word_of_nat_eq_iff take_bit_nat_eq_self)

lemma identities_distinct_below_truncation:
  assumes "create_all eng cbs p = (ws, p')" and "length cbs \<le> 2 ^ 32"
  shows "distinct (identities_issued ws)"
proof -
  from assms(2) have le: "length cbs \<le> 2 ^ 64" by simp
  from create_all_length [OF assms(1)] have len: "length ws = length cbs" .
  show ?thesis
    unfolding identities_issued_def distinct_conv_nth
  proof (intro allI impI)
    fix i j
    assume i: "i < length (map (\<lambda>w. id' (cWorker w)) ws)"
      and j: "j < length (map (\<lambda>w. id' (cWorker w)) ws)" and ne: "i \<noteq> j"
    from i j len have i': "i < length cbs" and j': "j < length cbs" by simp_all
    from create_all_workers [OF assms(1) le i'] create_all_workers [OF assms(1) le j']
    have ids: "id' (cWorker (ws ! i)) = ucast (workerIdSequence p) + of_nat i"
      "id' (cWorker (ws ! j)) = ucast (workerIdSequence p) + of_nat j"
      by (simp_all add: ucast_add_32)
    show "map (\<lambda>w. id' (cWorker w)) ws ! i \<noteq> map (\<lambda>w. id' (cWorker w)) ws ! j"
    proof
      assume "map (\<lambda>w. id' (cWorker w)) ws ! i = map (\<lambda>w. id' (cWorker w)) ws ! j"
      with i j ids have "(of_nat i :: 32 word) = of_nat j" by simp
      moreover from i' j' assms(2) have "i < 2 ^ 32" "j < 2 ^ 32" by simp_all
      ultimately have "i = j" by (simp add: of_nat_32_inj)
      with ne show False by simp
    qed
  qed
qed

text \<open>
  C7 holds for the first \<open>2 ^ 32\<close> workers of a process and not for the next one.  \<open>New\<close>
  draws the identity from a 64-bit counter and registers the callbacks under it, but
  hands the worker \<open>C.int(id)\<close>, its low 32 bits, and the worker presents that identity
  when its script sends to the host.  Take \<open>2 ^ 32 + 1\<close> workers created one after the
  other from the start of a process, the first and the last kept, each of the others
  collected before the next is created.  The last carries identity 0, as the first
  does.  Both have their own registry entry, yet a message that the script of the last
  one sends is handed to the callback of the first.
\<close>

theorem worker_identities_repeat_after_truncation:
  "length (fst crowd) = 2 ^ 32 + 1
   \<and> identities_issued (fst crowd) ! 0 = 0
   \<and> identities_issued (fst crowd) ! (2 ^ 32) = 0
   \<and> \<not> distinct (identities_issued (fst crowd))
   \<and> callbacksMap (snd crowd) 0 = Some \<lparr>cb = tagged ''first: '', syncCB = None\<rparr>
   \<and> callbacksMap (snd crowd) (2 ^ 32) = Some \<lparr>cb = tagged ''last: '', syncCB = None\<rparr>
   \<and> Send' (JSString ''x'') (cWorker (fst crowd ! (2 ^ 32))) (snd crowd)
       = Inr ((snd crowd)\<lparr>host := [''first: x'']\<rparr>)"
proof -
  obtain ws p' where crowd: "create_all demo_engine crowd_callbacks demo_start = (ws, p')"
    by (cases "create_all demo_engine crowd_callbacks demo_start") auto
  have len: "length crowd_callbacks = 2 ^ 32 + 1"
    by (simp add: crowd_callbacks_def)
  then have le: "length crowd_callbacks \<le> 2 ^ 64" by simp
  have first: "crowd_callbacks ! 0 = kept ''first: ''"
    by (simp add: crowd_callbacks_def)
  have last: "crowd_callbacks ! (2 ^ 32) = kept ''last: ''"
    by (simp add: crowd_callbacks_def nth_append)
  have start: "workerIdSequence demo_start = 0" "host demo_start = []"
    by (simp_all add: demo_start_def process_start_def)
  have k0: "0 < length crowd_callbacks" and kn: "2 ^ 32 < length crowd_callbacks"
    using len by simp_all
  from create_all_length [OF crowd] len have lws: "length ws = 2 ^ 32 + 1" by simp
  from create_all_workers [OF crowd le k0] start first have
    id0: "id' (cWorker (ws ! 0)) = 0" and
    entry0: "callbacksMap p' 0 = Some \<lparr>cb = tagged ''first: '', syncCB = None\<rparr>"
    by (simp_all add: kept_def)
  from create_all_workers [OF crowd le kn] start last have
    idn: "id' (cWorker (ws ! (2 ^ 32))) = 0" and
    entryn: "callbacksMap p' (2 ^ 32) = Some \<lparr>cb = tagged ''last: '', syncCB = None\<rparr>"
    by (simp_all add: kept_def)
  from create_all_host [OF crowd] start have host: "host p' = []" by simp
  have ids0: "identities_issued ws ! 0 = 0" and idsn: "identities_issued ws ! (2 ^ 32) = 0"
    using id0 idn lws by (simp_all add: identities_issued_def)
  have "\<not> distinct (identities_issued ws)"
  proof
    assume "distinct (identities_issued ws)"
    moreover have "length (identities_issued ws) = 2 ^ 32 + 1"
      using lws by (simp add: identities_issued_def)
    ultimately have "(identities_issued ws ! 0 = identities_issued ws ! (2 ^ 32))
        = ((0::nat) = 2 ^ 32)"
      by (intro nth_eq_iff_index_eq) simp_all
    then show False using ids0 idsn by simp
  qed
  moreover have "Send' (JSString ''x'') (cWorker (ws ! (2 ^ 32))) p' = Inr (p'\<lparr>host := [''first: x'']\<rparr>)"
    using idn entry0 host
    by (simp add: Send'_def recvCb_def ToCString_def c_string_def NUL_def tagged_def)
  ultimately show ?thesis
    using lws ids0 idsn entry0 entryn by (simp add: crowd_def crowd)
qed

section \<open>Script names\<close>

lemma LoadWithOptions_origin:
  assumes "LoadWithOptions eng w origin code p = Inr (err, named, w', p')"
  shows "named = fst (script_origin origin p)
         \<and> scriptSequence p' = scriptSequence (snd (script_origin origin p))"
proof -
  obtain named0 p0 where so: "script_origin origin p = (named0, p0)"
    by (cases "script_origin origin p") auto
  note load = assms [unfolded LoadWithOptions_compiled [OF so]]
  show ?thesis
  proof (cases "compiled eng named0 code")
    case (Inl fault)
    with load so show ?thesis by simp
  next
    case (Inr unit)
    show ?thesis
    proof (cases "run_script eng (unit (context' (cWorker w))) (cWorker w) p0")
      case Inl
      with load Inr show ?thesis by simp
    next
      case run: (Inr r)
      obtain completion cw p1 where r: "r = (completion, cw, p1)" by (cases r) auto
      from run_script_keeps [OF run [unfolded r]] have "scriptSequence p1 = scriptSequence p0"
        by simp
      with load Inr run r so show ?thesis
        by (cases completion) auto
    qed
  qed
qed

lemma script_origin_None:
  "script_origin None p =
     (new_ScriptOrigin\<lparr>ScriptName := ''VM'' @ strconv_Itoa (scriptSequence p)\<rparr>,
      p\<lparr>scriptSequence := scriptSequence p + 1\<rparr>)"
  by (simp add: script_origin_def nextScriptName_def new_ScriptOrigin_def Let_def)

lemma unnamed_loads_names:
  "unnamed_loads eng w codes p = Inr (names, w', p') \<Longrightarrow>
     names = map (\<lambda>k. ''VM'' @ strconv_Itoa (scriptSequence p + of_nat k)) [0..<length codes]"
proof (induction codes arbitrary: w p names)
  case Nil
  then show ?case by simp
next
  case (Cons code codes)
  from Cons.prems obtain err origin w1 p1 where
    load: "LoadWithOptions eng w None code p = Inr (err, origin, w1, p1)"
    by (auto split: sum.splits)
  with Cons.prems obtain rest where
    rest: "unnamed_loads eng w1 codes p1 = Inr (rest, w', p')" and
    names: "names = ScriptName origin # rest"
    by (auto split: sum.splits)
  from LoadWithOptions_origin [OF load] have
    origin: "ScriptName origin = ''VM'' @ strconv_Itoa (scriptSequence p)" and
    seq: "scriptSequence p1 = scriptSequence p + 1"
    by (simp_all add: script_origin_None)
  from Cons.IH [OF rest] seq have
    "rest = map (\<lambda>k. ''VM'' @ strconv_Itoa (scriptSequence p + of_nat (Suc k))) [0..<length codes]"
    by (simp add: add.assoc)
  with names origin show ?case
    by (simp add: map_upt_Suc del: upt_Suc)
qed

lemma script_names_distinct:
  assumes "n \<le> 2 ^ 64"
  shows "distinct (map (\<lambda>k. ''VM'' @ strconv_Itoa (start + of_nat k)) [0..<n])"
proof -
  have "inj_on (\<lambda>k. ''VM'' @ strconv_Itoa (start + of_nat k)) {0..<n}"
  proof (rule inj_onI)
    fix k j
    assume k: "k \<in> {0..<n}" and j: "j \<in> {0..<n}"
      and eq: "''VM'' @ strconv_Itoa (start + of_nat k) = ''VM'' @ strconv_Itoa (start + of_nat j)"
    from eq have "strconv_Itoa (start + of_nat k) = strconv_Itoa (start + of_nat j)" by simp
    then have "start + of_nat k = start + of_nat j" by (rule strconv_Itoa_inj)
    then have "(of_nat k :: 64 word) = of_nat j" by simp
    moreover from k j assms have "k < 2 ^ 64" "j < 2 ^ 64" by simp_all
    ultimately show "k = j" by (simp add: of_nat_64_inj)
  qed
  then show ?thesis by (simp add: distinct_map)
qed

lemma strconv_Itoa_of_nat: "k < 2 ^ 63 \<Longrightarrow> strconv_Itoa (of_nat k) = show_int (int k)"
proof -
  assume k: "k < 2 ^ 63"
  have "sint (of_nat k :: 64 word) = signed_take_bit 63 (int k)"
    by (simp add: signed_of_nat)
  also from k have "\<dots> = int k"
    by (simp add: signed_take_bit_int_eq_self)
  finally show ?thesis by (simp add: strconv_Itoa_def)
qed

lemma script_names_numbered:
  "n \<le> 2 ^ 63 \<Longrightarrow>
     map (\<lambda>k. ''VM'' @ strconv_Itoa (0 + of_nat k)) [0..<n] = map (\<lambda>k. ''VM'' @ show_int (int k)) [0..<n]"
  by (simp add: strconv_Itoa_of_nat)

lemma demo_plain_load:
  "\<exists>origin w' p'. LoadWithOptions demo_engine w None ''x = 1'' p = Inr (None, origin, w', p')"
proof -
  obtain named p0 where so: "script_origin None p = (named, p0)"
    by (cases "script_origin None p") auto
  have "compiled demo_engine named ''x = 1'' = Inr (\<lambda>c. Return (Suc c) JSUndefined)"
    by (simp add: compiled_def demo_engine_def NewFromUtf8_def C_CString_def c_string_def NUL_def)
  then show ?thesis
    by (simp add: LoadWithOptions_compiled [OF so])
qed

lemma c_string_unchanged_iff: "(c_string s = s) = (NUL \<notin> set s)"
proof
  assume "c_string s = s"
  with NUL_notin_c_string [of s] show "NUL \<notin> set s" by simp
next
  assume "NUL \<notin> set s"
  then show "c_string s = s" by (rule c_string_without_NUL)
qed

text \<open>
  C9, as the code has it.
  \<^item> A load given no origin, or an origin whose script name is empty, runs under the name
    \<open>VM\<close> followed by the decimal value of the process-wide script counter, and adds one
    to that counter.
  \<^item> A load given an origin with a non-empty script name keeps that origin and leaves the
    counter alone.
  \<^item> The name goes to the engine as a C string: the engine compiles the source under the
    bytes of the name that come before its first NUL byte, with the other fields of the
    origin as they are.  That is the whole name exactly when the name has no NUL byte.
  \<^item> The origin a load returns is the one so chosen, with the whole name, and running the
    script does not touch the counter.
  \<^item> Successive loads without origin therefore receive the names of successive counter
    values.  The counter is a 64-bit signed integer: the names are pairwise distinct for
    up to \<open>2 ^ 64\<close> such loads, and they are \<open>VM0\<close>, \<open>VM1\<close>, \<open>VM2\<close>, \<dots> for the first
    \<open>2 ^ 63\<close> such loads of a process.
\<close>

theorem script_names_generated_or_cut_at_NUL:
  "script_origin None p =
     (new_ScriptOrigin\<lparr>ScriptName := ''VM'' @ strconv_Itoa (scriptSequence p)\<rparr>,
      p\<lparr>scriptSequence := scriptSequence p + 1\<rparr>)
   \<and> (ScriptName given = [] \<longrightarrow>
        script_origin (Some given) p =
          (given\<lparr>ScriptName := ''VM'' @ strconv_Itoa (scriptSequence p)\<rparr>,
           p\<lparr>scriptSequence := scriptSequence p + 1\<rparr>))
   \<and> (ScriptName given \<noteq> [] \<longrightarrow> script_origin (Some given) p = (given, p))
   \<and> (script_origin origin p = (named, p0) \<longrightarrow>
        LoadWithOptions eng w origin code p =
          (case Script_Compile eng (String_NewFromUtf8 eng (c_string code))
                  \<lparr>name = String_NewFromUtf8 eng (c_string (ScriptName named)),
                   line_offset = LineOffset named,
                   column_offset = ColumnOffset named,
                   is_shared_cross_origin = IsSharedCrossOrigin named,
                   script_id = ScriptId named,
                   is_embedder_debug_script = IsEmbedderDebugScript named,
                   source_map_url = String_NewFromUtf8 eng (c_string (SourceMapURL named)),
                   is_opaque = IsOpaque named\<rparr> of
             Inl fault \<Rightarrow>
               Inr (Some (errors_New (ExceptionString fault)), named,
                    w\<lparr>cWorker := (cWorker w)\<lparr>last_exception := ExceptionString fault\<rparr>\<rparr>, p0)
           | Inr unit \<Rightarrow>
               (case run_script eng (unit (context' (cWorker w))) (cWorker w) p0 of
                  Inl a \<Rightarrow> Inl a
                | Inr (Inl fault, cw, p1) \<Rightarrow>
                    Inr (Some (errors_New (ExceptionString fault)), named,
                         w\<lparr>cWorker := cw\<lparr>last_exception := ExceptionString fault\<rparr>\<rparr>, p1)
                | Inr (Inr result, cw, p1) \<Rightarrow> Inr (None, named, w\<lparr>cWorker := cw\<rparr>, p1))))
   \<and> (c_string (ScriptName named) = ScriptName named) = (NUL \<notin> set (ScriptName named))
   \<and> (LoadWithOptions eng w origin code p = Inr (err, returned, w', p') \<longrightarrow>
        returned = fst (script_origin origin p)
        \<and> scriptSequence p' = scriptSequence (snd (script_origin origin p)))
   \<and> (unnamed_loads eng w codes p = Inr (names, w'', p'') \<longrightarrow>
        names = map (\<lambda>k. ''VM'' @ strconv_Itoa (scriptSequence p + of_nat k)) [0..<length codes]
        \<and> (length codes \<le> 2 ^ 64 \<longrightarrow> distinct names)
        \<and> (scriptSequence p = 0 \<and> length codes \<le> 2 ^ 63 \<longrightarrow>
             names = map (\<lambda>k. ''VM'' @ show_int (int k)) [0..<length codes]))"
proof (intro conjI impI)
  show "script_origin None p =
     (new_ScriptOrigin\<lparr>ScriptName := ''VM'' @ strconv_Itoa (scriptSequence p)\<rparr>,
      p\<lparr>scriptSequence := scriptSequence p + 1\<rparr>)"
    by (rule script_origin_None)
next
  assume "ScriptName given = []"
  then show "script_origin (Some given) p =
          (given\<lparr>ScriptName := ''VM'' @ strconv_Itoa (scriptSequence p)\<rparr>,
           p\<lparr>scriptSequence := scriptSequence p + 1\<rparr>)"
    by (simp add: script_origin_def nextScriptName_def Let_def)
next
  assume "ScriptName given \<noteq> []"
  then show "script_origin (Some given) p = (given, p)"
    by (simp add: script_origin_def)
next
  assume so: "script_origin origin p = (named, p0)"
  show "LoadWithOptions eng w origin code p =
          (case Script_Compile eng (String_NewFromUtf8 eng (c_string code))
                  \<lparr>name = String_NewFromUtf8 eng (c_string (ScriptName named)),
                   line_offset = LineOffset named,
                   column_offset = ColumnOffset named,
                   is_shared_cross_origin = IsSharedCrossOrigin named,
                   script_id = ScriptId named,
                   is_embedder_debug_script = IsEmbedderDebugScript named,
                   source_map_url = String_NewFromUtf8 eng (c_string (SourceMapURL named)),
                   is_opaque = IsOpaque named\<rparr> of
             Inl fault \<Rightarrow>
               Inr (Some (errors_New (ExceptionString fault)), named,
                    w\<lparr>cWorker := (cWorker w)\<lparr>last_exception := ExceptionString fault\<rparr>\<rparr>, p0)
           | Inr unit \<Rightarrow>
               (case run_script eng (unit (context' (cWorker w))) (cWorker w) p0 of
                  Inl a \<Rightarrow> Inl a
                | Inr (Inl fault, cw, p1) \<Rightarrow>
                    Inr (Some (errors_New (ExceptionString fault)), named,
                         w\<lparr>cWorker := cw\<lparr>last_exception := ExceptionString fault\<rparr>\<rparr>, p1)
                | Inr (Inr result, cw, p1) \<Rightarrow> Inr (None, named, w\<lparr>cWorker := cw\<rparr>, p1)))"
    unfolding LoadWithOptions_compiled [OF so] compiled_def NewFromUtf8_def C_CString_def ..
next
  show "(c_string (ScriptName named) = ScriptName named) = (NUL \<notin> set (ScriptName named))"
    by (rule c_string_unchanged_iff)
next
  assume load: "LoadWithOptions eng w origin code p = Inr (err, returned, w', p')"
  from LoadWithOptions_origin [OF load]
  show "returned = fst (script_origin origin p)"
    and "scriptSequence p' = scriptSequence (snd (script_origin origin p))"
    by simp_all
next
  assume loads: "unnamed_loads eng w codes p = Inr (names, w'', p'')"
  from unnamed_loads_names [OF loads]
  show names: "names = map (\<lambda>k. ''VM'' @ strconv_Itoa (scriptSequence p + of_nat k)) [0..<length codes]" .
  {
    assume "length codes \<le> 2 ^ 64"
    then show "distinct names"
      unfolding names by (rule script_names_distinct)
  }
  {
    assume "scriptSequence p = 0 \<and> length codes \<le> 2 ^ 63"
    then show "names = map (\<lambda>k. ''VM'' @ show_int (int k)) [0..<length codes]"
      unfolding names using script_names_numbered [of "length codes"] by simp
  }
qed

text \<open>
  In the first worker of a process: an origin with an empty name becomes \<open>VM0\<close>, an
  origin named \<open>app.js\<close> stays as it is, has no NUL byte, and a source under it that
  does not compile is reported as \<open>app.js:1\<close>; a load without origin returns success; and
  three loads without origin (one runs, one throws, one does not compile) run under
  \<open>VM0\<close>, \<open>VM1\<close> and \<open>VM2\<close>.
\<close>

theorem script_names_generated_or_cut_at_NUL_witness:
  "script_origin (Some new_ScriptOrigin) demo_process
     = (new_ScriptOrigin\<lparr>ScriptName := ''VM0''\<rparr>, demo_process\<lparr>scriptSequence := 1\<rparr>)
   \<and> script_origin (Some (new_ScriptOrigin\<lparr>ScriptName := ''app.js''\<rparr>)) demo_process
     = (new_ScriptOrigin\<lparr>ScriptName := ''app.js''\<rparr>, demo_process)
   \<and> c_string ''app.js'' = ''app.js''
   \<and> LoadWithOptions demo_engine demo_worker (Some (new_ScriptOrigin\<lparr>ScriptName := ''app.js''\<rparr>))
       ''var x = ;'' demo_process
     = Inr (Some (errors_New
              ''app.js:1\<newline>var x = ;\<newline>        ^\<newline>SyntaxError: Unexpected token ;\<newline>''),
            new_ScriptOrigin\<lparr>ScriptName := ''app.js''\<rparr>,
            demo_worker\<lparr>cWorker := (cWorker demo_worker)\<lparr>last_exception :=
              ''app.js:1\<newline>var x = ;\<newline>        ^\<newline>SyntaxError: Unexpected token ;\<newline>''\<rparr>\<rparr>,
            demo_process)
   \<and> map_sum id fst
         (LoadWithOptions demo_engine demo_worker None ''x = 1'' demo_process)
     = Inr None
   \<and> map_sum id fst
         (unnamed_loads demo_engine demo_worker [''x = 1'', ''throw 1'', ''var x = ;''] demo_process)
     = Inr [''VM0'', ''VM1'', ''VM2'']
   \<and> distinct [''VM0'', ''VM1'', ''VM2'']"
proof -
  let ?codes = "[''x = 1'', ''throw 1'', ''var x = ;'']"
  let ?app = "new_ScriptOrigin\<lparr>ScriptName := ''app.js''\<rparr>"
  let ?fault = "syntax_error
      \<lparr>name = ''app.js'', line_offset = 0, column_offset = 0, is_shared_cross_origin = False,
       script_id = 0, is_embedder_debug_script = False, source_map_url = [], is_opaque = False\<rparr>
      ''var x = ;''"
  have seq: "scriptSequence demo_process = 0" by (simp add: demo_process_eq)
  have d: "strconv_Itoa 0 = ''0''" "strconv_Itoa 1 = ''1''" "strconv_Itoa 2 = ''2''"
    by code_simp+
  have l: "[0..<3] = [0, 1, 2]" by (simp add: upt_rec)
  have e: "ScriptName new_ScriptOrigin = []" by (simp add: new_ScriptOrigin_def)
  have n: "ScriptName ?app \<noteq> []" by simp
  have nul: "NUL \<notin> set (ScriptName ?app)" by (simp add: NUL_def)
  have "\<not> isl (LoadWithOptions demo_engine demo_worker None ''x = 1'' demo_process)"
    using demo_plain_load [of demo_worker demo_process] by auto
  then obtain err returned w' p' where
    load: "LoadWithOptions demo_engine demo_worker None ''x = 1'' demo_process
             = Inr (err, returned, w', p')"
    by (cases "LoadWithOptions demo_engine demo_worker None ''x = 1'' demo_process") auto
  with demo_plain_load [of demo_worker demo_process] have err: "err = None" by auto
  have "\<not> isl (unnamed_loads demo_engine demo_worker ?codes demo_process)"
    by (simp add: demo_worker_eq demo_process_eq worker_new_def Let_def LoadWithOptions_def
          script_origin_def new_ScriptOrigin_def nextScriptName_def worker_load_def
          demo_engine_def NewFromUtf8_def C_CString_def c_string_def NUL_def
          C_GoString_def worker_last_exception_def function_return_def read_cptr_def)
  then obtain names w'' p'' where
    loads: "unnamed_loads demo_engine demo_worker ?codes demo_process = Inr (names, w'', p'')"
    by (cases "unnamed_loads demo_engine demo_worker ?codes demo_process") auto
  note claim = script_names_generated_or_cut_at_NUL
    [where p = demo_process and eng = demo_engine and w = demo_worker and codes = ?codes
       and names = names and w'' = w'' and p'' = p'' and err = err and returned = returned
       and w' = w' and p' = p']
  note unnamed = claim [where origin = None and code = "''x = 1''" and given = new_ScriptOrigin]
  note supplied = claim [where origin = "Some ?app" and code = "''var x = ;''" and given = ?app
                           and named = ?app and ?p0.0 = demo_process]
  from unnamed e seq d
  have a: "script_origin (Some new_ScriptOrigin) demo_process
     = (new_ScriptOrigin\<lparr>ScriptName := ''VM0''\<rparr>, demo_process\<lparr>scriptSequence := 1\<rparr>)"
    by simp
  from supplied n
  have b: "script_origin (Some ?app) demo_process = (?app, demo_process)"
    by blast
  from supplied nul have whole: "c_string (ScriptName ?app) = ScriptName ?app"
    by blast
  then have whole': "c_string ''app.js'' = ''app.js''" by simp
  have comp: "Script_Compile demo_engine (String_NewFromUtf8 demo_engine (c_string ''var x = ;''))
                \<lparr>name = String_NewFromUtf8 demo_engine (c_string (ScriptName ?app)),
                 line_offset = LineOffset ?app,
                 column_offset = ColumnOffset ?app,
                 is_shared_cross_origin = IsSharedCrossOrigin ?app,
                 script_id = ScriptId ?app,
                 is_embedder_debug_script = IsEmbedderDebugScript ?app,
                 source_map_url = String_NewFromUtf8 demo_engine (c_string (SourceMapURL ?app)),
                 is_opaque = IsOpaque ?app\<rparr>
              = Inl ?fault"
    by (simp add: demo_engine_def c_string_def NUL_def new_ScriptOrigin_def)
  have diag: "ExceptionString ?fault
            = ''app.js:1\<newline>var x = ;\<newline>        ^\<newline>SyntaxError: Unexpected token ;\<newline>''"
    by code_simp
  from supplied b have "LoadWithOptions demo_engine demo_worker (Some ?app) ''var x = ;'' demo_process
     = (case Script_Compile demo_engine (String_NewFromUtf8 demo_engine (c_string ''var x = ;''))
                \<lparr>name = String_NewFromUtf8 demo_engine (c_string (ScriptName ?app)),
                 line_offset = LineOffset ?app,
                 column_offset = ColumnOffset ?app,
                 is_shared_cross_origin = IsSharedCrossOrigin ?app,
                 script_id = ScriptId ?app,
                 is_embedder_debug_script = IsEmbedderDebugScript ?app,
                 source_map_url = String_NewFromUtf8 demo_engine (c_string (SourceMapURL ?app)),
                 is_opaque = IsOpaque ?app\<rparr> of
             Inl fault \<Rightarrow>
               Inr (Some (errors_New (ExceptionString fault)), ?app,
                    demo_worker\<lparr>cWorker := (cWorker demo_worker)\<lparr>last_exception := ExceptionString fault\<rparr>\<rparr>,
                    demo_process)
           | Inr unit \<Rightarrow>
               (case run_script demo_engine (unit (context' (cWorker demo_worker))) (cWorker demo_worker)
                       demo_process of
                  Inl a \<Rightarrow> Inl a
                | Inr (Inl fault, cw, p1) \<Rightarrow>
                    Inr (Some (errors_New (ExceptionString fault)), ?app,
                         demo_worker\<lparr>cWorker := cw\<lparr>last_exception := ExceptionString fault\<rparr>\<rparr>, p1)
                | Inr (Inr result, cw, p1) \<Rightarrow> Inr (None, ?app, demo_worker\<lparr>cWorker := cw\<rparr>, p1)))"
    by blast
  then have c: "LoadWithOptions demo_engine demo_worker (Some ?app) ''var x = ;'' demo_process
     = Inr (Some (errors_New
              ''app.js:1\<newline>var x = ;\<newline>        ^\<newline>SyntaxError: Unexpected token ;\<newline>''),
            ?app,
            demo_worker\<lparr>cWorker := (cWorker demo_worker)\<lparr>last_exception :=
              ''app.js:1\<newline>var x = ;\<newline>        ^\<newline>SyntaxError: Unexpected token ;\<newline>''\<rparr>\<rparr>,
            demo_process)"
    unfolding comp by (simp add: diag)
  from unnamed load have "returned = fst (script_origin None demo_process)"
    by blast
  from unnamed loads
  have n1: "names = map (\<lambda>k. ''VM'' @ strconv_Itoa (scriptSequence demo_process + of_nat k))
                      [0..<length ?codes]"
    and n2: "length ?codes \<le> 2 ^ 64 \<longrightarrow> distinct names"
    and n3: "scriptSequence demo_process = 0 \<and> length ?codes \<le> 2 ^ 63 \<longrightarrow>
               names = map (\<lambda>k. ''VM'' @ show_int (int k)) [0..<length ?codes]"
    by blast+
  from n1 have names: "names = [''VM0'', ''VM1'', ''VM2'']"
    by (simp add: seq l d)
  from n2 have dist: "distinct names"
    by simp
  from dist have dist': "distinct [''VM0'', ''VM1'', ''VM2'']"
    unfolding names .
  from a b whole' c load err loads names dist' show ?thesis by simp
qed

text \<open>
  C9 as stated passes a non-empty supplied name through unchanged.  On the code the name
  crosses to the engine as a C string, which ends at its first NUL byte, while a Go
  string may hold one.  A load in the first worker of a process under the name
  \<open>app\<close>, NUL, \<open>.js\<close>, of a source that does not compile: the engine is given the name
  \<open>app\<close>, and the diagnostic the load returns names the script \<open>app\<close>.
\<close>

theorem supplied_script_name_cut_at_NUL:
  "ScriptName (new_ScriptOrigin\<lparr>ScriptName := ''app'' @ [NUL] @ ''.js''\<rparr>) \<noteq> []
   \<and> compiled demo_engine (new_ScriptOrigin\<lparr>ScriptName := ''app'' @ [NUL] @ ''.js''\<rparr>) ''var x = ;''
     = Inl (syntax_error
              \<lparr>name = ''app'', line_offset = 0, column_offset = 0, is_shared_cross_origin = False,
               script_id = 0, is_embedder_debug_script = False, source_map_url = [],
               is_opaque = False\<rparr>
              ''var x = ;'')
   \<and> LoadWithOptions demo_engine demo_worker
       (Some (new_ScriptOrigin\<lparr>ScriptName := ''app'' @ [NUL] @ ''.js''\<rparr>)) ''var x = ;'' demo_process
     = Inr (Some (errors_New
              ''app:1\<newline>var x = ;\<newline>        ^\<newline>SyntaxError: Unexpected token ;\<newline>''),
            new_ScriptOrigin\<lparr>ScriptName := ''app'' @ [NUL] @ ''.js''\<rparr>,
            demo_worker\<lparr>cWorker := (cWorker demo_worker)\<lparr>last_exception :=
              ''app:1\<newline>var x = ;\<newline>        ^\<newline>SyntaxError: Unexpected token ;\<newline>''\<rparr>\<rparr>,
            demo_process)"
proof -
  let ?origin = "new_ScriptOrigin\<lparr>ScriptName := ''app'' @ [NUL] @ ''.js''\<rparr>"
  let ?fault = "syntax_error
      \<lparr>name = ''app'', line_offset = 0, column_offset = 0, is_shared_cross_origin = False,
       script_id = 0, is_embedder_debug_script = False, source_map_url = [], is_opaque = False\<rparr>
      ''var x = ;''"
  have named: "script_origin (Some ?origin) demo_process = (?origin, demo_process)"
    by (simp add: script_origin_def new_ScriptOrigin_def)
  have comp: "compiled demo_engine ?origin ''var x = ;'' = Inl ?fault"
    by (simp add: compiled_def demo_engine_def NewFromUtf8_def C_CString_def c_string_def NUL_def
          new_ScriptOrigin_def)
  have diag: "ExceptionString ?fault
            = ''app:1\<newline>var x = ;\<newline>        ^\<newline>SyntaxError: Unexpected token ;\<newline>''"
    by code_simp
  note load = LoadWithOptions_compiled [OF named, of demo_engine demo_worker "''var x = ;''"]
  from load comp diag show ?thesis
    by simp
qed

end
